theory Spec2Isabelle
  imports Complex_Main "HOL-Library.Log_Nat" "HOL-Library.Word"
begin

unbundle bit_operations_syntax

section \<open>JavaScript values\<close>

text \<open>
  The converters of the PJ-1203A energy meter are JavaScript. Their numbers are IEEE 754
  binary64 values. A number is modelled by the rational it denotes, and every arithmetic
  operation of the source rounds its exact result to the nearest binary64 value, ties to
  even (\<open>fl64\<close>): 53 significant bits, the smallest exponent of a bit being \<open>-1074\<close>
  (subnormal numbers). Overflow to \<open>Infinity\<close> (a result of magnitude \<open>2^1024\<close> or more),
  \<open>NaN\<close> and the sign of zero are outside the model; the datapoint values of the device
  are 4-byte integers, scaled by at most 1000.
\<close>

definition round_even :: "rat \<Rightarrow> int" where
  "round_even r = (let f = \<lfloor>r\<rfloor>; d = r - of_int f in
      if d < 1/2 then f else if 1/2 < d then f + 1 else if even f then f else f + 1)"

text \<open>\<open>ilog2 x\<close> is the exponent of the leading bit of \<open>x \<noteq> 0\<close>: \<open>2^ilog2 x \<le> |x| < 2^(ilog2 x + 1)\<close>.\<close>

definition ilog2 :: "rat \<Rightarrow> int" where
  "ilog2 x = (let (p, q) = quotient_of \<bar>x\<bar>; k = bitlen p - bitlen q
              in if 2 powi k \<le> \<bar>x\<bar> then k else k - 1)"

definition fl64 :: "rat \<Rightarrow> rat" where
  "fl64 x = (if x = 0 then 0
             else let e = max (ilog2 x - 52) (- 1074)
                  in of_int (round_even (x / 2 powi e)) * 2 powi e)"

definition js_add :: "rat \<Rightarrow> rat \<Rightarrow> rat" where
  "js_add a b = fl64 (a + b)"

definition js_mul :: "rat \<Rightarrow> rat \<Rightarrow> rat" where
  "js_mul a b = fl64 (a * b)"

text \<open>JavaScript \<open>a / b\<close>; every divisor of the source is a non-zero literal.\<close>

definition js_div :: "rat \<Rightarrow> rat \<Rightarrow> rat" where
  "js_div a b = fl64 (a / b)"

text \<open>\<open>Math.round\<close>: the nearest integer, a tie going towards plus infinity.\<close>

definition Math_round :: "rat \<Rightarrow> rat" where
  "Math_round x = of_int \<lfloor>x + 1/2\<rfloor>"

text \<open>
  \<open>a & b\<close> converts both operands to 32-bit two's complement integers. Sequence numbers
  and counters are integer-valued numbers; they are modelled as \<open>int\<close> (their sums are
  exact in binary64 below \<open>2^53\<close>).
\<close>

definition to_int32 :: "int \<Rightarrow> int" where
  "to_int32 n = sint (word_of_int n :: 32 word)"

definition js_bitand :: "int \<Rightarrow> int \<Rightarrow> int" where
  "js_bitand a b = to_int32 a AND to_int32 b"

text \<open>A value that may be \<open>null\<close>. In a number context \<open>null\<close> converts to 0.\<close>

datatype 'a nullable = Null | Val 'a

fun to_number :: "rat nullable \<Rightarrow> rat" where
  "to_number Null = 0"
| "to_number (Val r) = r"

text \<open>Truthiness of a flag that is \<open>null\<close>, \<open>true\<close> or \<open>false\<close>.\<close>

fun truthy :: "bool nullable \<Rightarrow> bool" where
  "truthy Null = False"
| "truthy (Val b) = b"

section \<open>Variant v5 (\<open>pj1203a...\<close>): state, options, emitted record\<close>

datatype channel = A | B

text \<open>
  The private state of one device, the object built by \<open>pj1203aGetPrivateState\<close>. The
  per-channel keys \<open>sign_a\<close>, \<open>sign_b\<close>, ... are fields indexed by the channel.
\<close>

record priv =
  sign_x :: "channel \<Rightarrow> rat nullable"
  power_x :: "channel \<Rightarrow> rat nullable"
  current_x :: "channel \<Rightarrow> rat nullable"
  power_factor_x :: "channel \<Rightarrow> rat nullable"
  timestamp_x :: "channel \<Rightarrow> string nullable"
  last_seq :: int
  seq_inc :: int
  pub_power_x :: "channel \<Rightarrow> rat nullable"
  zero_power_x :: "channel \<Rightarrow> bool nullable"
  zero_current_x :: "channel \<Rightarrow> bool nullable"

text \<open>The store of the device: \<open>None\<close> while \<open>private_state\<close> is still undefined.\<close>

type_synonym store = "priv option"

definition pj1203aGetPrivateState :: "store \<Rightarrow> priv" where
  "pj1203aGetPrivateState st =
     (case st of
        None \<Rightarrow> \<lparr> sign_x = (\<lambda>_. Null), power_x = (\<lambda>_. Null), current_x = (\<lambda>_. Null),
                 power_factor_x = (\<lambda>_. Null), timestamp_x = (\<lambda>_. Null),
                 last_seq = - 99999, seq_inc = 256,
                 pub_power_x = (\<lambda>_. Null),
                 zero_power_x = (\<lambda>_. Null), zero_current_x = (\<lambda>_. Null) \<rparr>
      | Some p \<Rightarrow> p)"

text \<open>The options bag; \<open>None\<close> is an absent key.\<close>

record options =
  late_energy_flow :: "channel \<Rightarrow> bool option"
  signed_power :: "channel \<Rightarrow> bool option"
  single_zero_remove :: "bool option"

text \<open>
  Each getter returns the option when the key is present and \<open>undefined\<close> otherwise;
  its callers only test the truthiness of what it returns.
\<close>

definition pj1203aGetLateEnergyFlow :: "options \<Rightarrow> channel \<Rightarrow> bool" where
  "pj1203aGetLateEnergyFlow opts x = (case late_energy_flow opts x of Some b \<Rightarrow> b | None \<Rightarrow> False)"

definition pj1203aGetSignedPower :: "options \<Rightarrow> channel \<Rightarrow> bool" where
  "pj1203aGetSignedPower opts x = (case signed_power opts x of Some b \<Rightarrow> b | None \<Rightarrow> False)"

definition pj1203aGetSingleZeroRemove :: "options \<Rightarrow> bool" where
  "pj1203aGetSingleZeroRemove opts = (case single_zero_remove opts of Some b \<Rightarrow> b | None \<Rightarrow> False)"

text \<open>
  The emitted record \<open>result\<close>. \<open>None\<close> is a key that is not in the record; a key that
  is present holds a value or \<open>null\<close>. \<open>res_named\<close> holds the keys written by the
  table entries that carry a name (\<open>ac_frequency\<close>, \<open>voltage\<close>, ...).
\<close>

record result =
  res_power :: "channel \<Rightarrow> rat nullable option"
  res_energy_flow :: "channel \<Rightarrow> string nullable option"
  res_timestamp :: "channel \<Rightarrow> string nullable option"
  res_current :: "channel \<Rightarrow> rat nullable option"
  res_power_factor :: "channel \<Rightarrow> rat nullable option"
  res_power_ab :: "rat nullable option"
  res_named :: "string \<Rightarrow> rat option"

definition empty_result :: result where
  "empty_result = \<lparr> res_power = (\<lambda>_. None), res_energy_flow = (\<lambda>_. None),
                     res_timestamp = (\<lambda>_. None), res_current = (\<lambda>_. None),
                     res_power_factor = (\<lambda>_. None), res_power_ab = None,
                     res_named = (\<lambda>_. None) \<rparr>"

section \<open>Combined-channel recomputation and flush (v5)\<close>

definition pj1203aRecomputePowerAb :: "result \<Rightarrow> priv \<Rightarrow> result \<times> priv" where
  "pj1203aRecomputePowerAb result priv =
     (let (priv1, modified1) =
            (case res_power result A of
               Some p \<Rightarrow>
                 (priv\<lparr>pub_power_x := (pub_power_x priv)
                    (A := Val (js_mul (to_number p)
                       (if res_energy_flow result A = Some (Val ''producing'') then - 1 else 1)))\<rparr>,
                  True)
             | None \<Rightarrow> (priv, False));
          (priv2, modified2) =
            (case res_power result B of
               Some p \<Rightarrow>
                 (priv1\<lparr>pub_power_x := (pub_power_x priv1)
                    (B := Val (js_mul (to_number p)
                       (if res_energy_flow result B = Some (Val ''producing'') then - 1 else 1)))\<rparr>,
                  True)
             | None \<Rightarrow> (priv1, modified1))
      in if modified2
         then (case (pub_power_x priv2 A, pub_power_x priv2 B) of
                 (Val a, Val b) \<Rightarrow>
                   (result\<lparr>res_power_ab :=
                      Some (Val (js_div (Math_round (js_add (js_mul 10 a) (js_mul 10 b))) 10))\<rparr>,
                    priv2)
               | _ \<Rightarrow> (result, priv2))
         else (result, priv2))"

text \<open>\<open>pj1203aFlushAll\<close> returns its boolean together with the updated record and state.\<close>

definition pj1203aFlushAll :: "result \<Rightarrow> channel \<Rightarrow> priv \<Rightarrow> options \<Rightarrow> bool \<times> result \<times> priv" where
  "pj1203aFlushAll result x priv opts =
     (let sign = sign_x priv x;
          power = power_x priv x;
          current = current_x priv x;
          power_factor = power_factor_x priv x;
          priv1 = priv\<lparr>sign_x := (sign_x priv)(x := Null),
                       power_x := (power_x priv)(x := Null),
                       current_x := (current_x priv)(x := Null),
                       power_factor_x := (power_factor_x priv)(x := Null)\<rparr>
      in case (sign, power, current, power_factor) of
           (Val s, Val p, Val c, Val pf) \<Rightarrow>
             (let result1 =
                    (if pj1203aGetSignedPower opts x
                     then result\<lparr>res_power := (res_power result)(x := Some (Val (js_mul s p))),
                                 res_energy_flow := (res_energy_flow result)(x := Some (Val ''sign''))\<rparr>
                     else result\<lparr>res_power := (res_power result)(x := Some (Val p)),
                                 res_energy_flow := (res_energy_flow result)
                                   (x := Some (Val (if s > 0 then ''consuming'' else ''producing'')))\<rparr>);
                  result2 = result1\<lparr>res_timestamp := (res_timestamp result1)(x := Some (timestamp_x priv1 x)),
                                    res_current := (res_current result1)(x := Some (Val c)),
                                    res_power_factor := (res_power_factor result1)(x := Some (Val pf))\<rparr>;
                  (result3, priv2) = pj1203aRecomputePowerAb result2 priv1
              in (True, result3, priv2))
         | _ \<Rightarrow> (False, result, priv1))"

text \<open>\<open>now\<close> is what \<open>new Date().toISOString()\<close> returns when the function runs.\<close>

definition pj1203aFlushZero :: "result \<Rightarrow> channel \<Rightarrow> priv \<Rightarrow> options \<Rightarrow> string \<Rightarrow> result \<times> priv" where
  "pj1203aFlushZero result x priv opts now =
     (let priv1 = priv\<lparr>sign_x := (sign_x priv)(x := Val 1)\<rparr>;
          priv2 = priv1\<lparr>power_x := (power_x priv1)(x := Val 0)\<rparr>;
          priv3 = priv2\<lparr>timestamp_x := (timestamp_x priv2)(x := Val now)\<rparr>;
          priv4 = priv3\<lparr>current_x := (current_x priv3)(x := Val 0)\<rparr>;
          priv5 = priv4\<lparr>power_factor_x := (power_factor_x priv4)(x := Val 100)\<rparr>
      in snd (pj1203aFlushAll result x priv5 opts))"

definition pj1203aFlushNull :: "result \<Rightarrow> channel \<Rightarrow> priv \<Rightarrow> options \<Rightarrow> string \<Rightarrow> result \<times> priv" where
  "pj1203aFlushNull result x priv opts now =
     (let priv1 = priv\<lparr>sign_x := (sign_x priv)(x := Null),
                       power_x := (power_x priv)(x := Null),
                       current_x := (current_x priv)(x := Null),
                       power_factor_x := (power_factor_x priv)(x := Null)\<rparr>;
          priv2 = priv1\<lparr>timestamp_x := (timestamp_x priv1)(x := Val now)\<rparr>
      in snd (pj1203aFlushAll result x priv2 opts))"

section \<open>Value converters (v5)\<close>

text \<open>
  Each \<open>from\<close> takes the raw datapoint value \<open>v\<close>, the store behind \<open>meta\<close> and the
  options, and returns the record it built together with the state it left.
\<close>

definition energy_flow_from :: "channel \<Rightarrow> int \<Rightarrow> store \<Rightarrow> options \<Rightarrow> result \<times> priv" where
  "energy_flow_from x v st opts =
     (let priv = pj1203aGetPrivateState st;
          result = empty_result;
          priv1 = priv\<lparr>sign_x := (sign_x priv)(x := Val (if v = 1 then - 1 else 1))\<rparr>;
          late_energy_flow = pj1203aGetLateEnergyFlow opts x
      in if late_energy_flow then snd (pj1203aFlushAll result x priv1 opts)
         else (result, priv1))"

definition power_from :: "channel \<Rightarrow> int \<Rightarrow> string \<Rightarrow> store \<Rightarrow> options \<Rightarrow> result \<times> priv" where
  "power_from x v now st opts =
     (let priv = pj1203aGetPrivateState st;
          result = empty_result;
          power = js_div (of_int v) 10;
          priv1 = priv\<lparr>power_x := (power_x priv)(x := Val power)\<rparr>;
          priv2 = priv1\<lparr>timestamp_x := (timestamp_x priv1)(x := Val now)\<rparr>
      in if v = 0
         then (let single_zero_remove = pj1203aGetSingleZeroRemove opts;
                   (result1, priv3) =
                      (if single_zero_remove \<and> \<not> truthy (zero_power_x priv2 x)
                       then pj1203aFlushNull result x priv2 opts now
                       else pj1203aFlushZero result x priv2 opts now)
               in (result1, priv3\<lparr>zero_power_x := (zero_power_x priv3)(x := Val True)\<rparr>))
         else (result, priv2\<lparr>zero_power_x := (zero_power_x priv2)(x := Val False)\<rparr>))"

definition current_from :: "channel \<Rightarrow> int \<Rightarrow> string \<Rightarrow> store \<Rightarrow> options \<Rightarrow> result \<times> priv" where
  "current_from x v now st opts =
     (let priv = pj1203aGetPrivateState st;
          result = empty_result;
          current = js_div (of_int v) 1000;
          priv1 = priv\<lparr>current_x := (current_x priv)(x := Val current)\<rparr>
      in if v = 0
         then (let single_zero_remove = pj1203aGetSingleZeroRemove opts;
                   (result1, priv2) =
                      (if single_zero_remove \<and> \<not> truthy (zero_current_x priv1 x)
                       then pj1203aFlushNull result x priv1 opts now
                       else pj1203aFlushZero result x priv1 opts now)
               in (result1, priv2\<lparr>zero_current_x := (zero_current_x priv2)(x := Val True)\<rparr>))
         else (result, priv1\<lparr>zero_current_x := (zero_current_x priv1)(x := Val False)\<rparr>))"

definition power_factor_from :: "channel \<Rightarrow> int \<Rightarrow> store \<Rightarrow> options \<Rightarrow> result \<times> priv" where
  "power_factor_from x v st opts =
     (let priv = pj1203aGetPrivateState st;
          result = empty_result;
          priv1 = priv\<lparr>power_factor_x := (power_factor_x priv)(x := Val (of_int v))\<rparr>;
          late_energy_flow = pj1203aGetLateEnergyFlow opts x
      in if \<not> late_energy_flow then snd (pj1203aFlushAll result x priv1 opts)
         else (result, priv1))"

text \<open>The \<open>power_ab\<close> datapoint of the device is discarded.\<close>

definition power_ab_from :: "int \<Rightarrow> store \<Rightarrow> options \<Rightarrow> result \<times> priv" where
  "power_ab_from v st opts = (empty_result, pj1203aGetPrivateState st)"

section \<open>Sequence tracking and dispatch (v5)\<close>

text \<open>
  A datapoint message: \<open>msg.data.seq\<close> and \<open>msg.data.dpValues\<close>, each datapoint being
  its identifier and its numeric value.
\<close>

record msg =
  data_seq :: int
  data_dpValues :: "(nat \<times> int) list"

text \<open>\<open>commandMcuSyncTime\<close> carries no sequence number; the counter is stepped by hand.\<close>

definition pj1203aIgnoreTuyaSetTime_convert :: "store \<Rightarrow> priv" where
  "pj1203aIgnoreTuyaSetTime_convert st =
     (let priv = pj1203aGetPrivateState st
      in priv\<lparr>last_seq := last_seq priv + seq_inc priv\<rparr>)"

definition expected_seq :: "priv \<Rightarrow> int" where
  "expected_seq priv = js_bitand (last_seq priv + seq_inc priv) 0xFFFF"

text \<open>The test that guards the clearing branch of \<open>pj1203aFzDatapoints.convert\<close>.\<close>

definition gap_detected :: "priv \<Rightarrow> int \<Rightarrow> bool" where
  "gap_detected priv s = (s \<noteq> expected_seq priv \<and> s \<noteq> last_seq priv)"

text \<open>The body of that branch.\<close>

definition clear_pending :: "priv \<Rightarrow> priv" where
  "clear_pending priv =
     priv\<lparr>sign_x := (\<lambda>_. Null), power_x := (\<lambda>_. Null), current_x := (\<lambda>_. Null),
           power_factor_x := (\<lambda>_. Null),
           zero_power_x := (\<lambda>_. Null), zero_current_x := (\<lambda>_. Null)\<rparr>"

text \<open>The sequence tracker: the part of \<open>convert\<close> that runs before the dispatch.\<close>

definition track_seq :: "priv \<Rightarrow> int \<Rightarrow> priv" where
  "track_seq priv s =
     (let priv1 = (if gap_detected priv s then clear_pending priv else priv)
      in priv1\<lparr>last_seq := s\<rparr>)"

text \<open>
  Modelled from the spec: \<open>tuya.fz.datapoints.convert\<close> and the converters
  \<open>valueConverter.divideBy10\<close>, \<open>divideBy100\<close>, \<open>divideBy1000\<close> and \<open>raw\<close> belong to the
  library zigbee-herdsman-converters, which is not part of the repository. The dispatch
  adapter looks each datapoint up in the table \<open>meta.tuyaDatapoints\<close> of the definition.
  An entry with a name stores what its converter returns under that name; an entry
  without a name merges the record its converter returns (\<open>Object.assign\<close>); a datapoint
  that is not in the table is ignored.
\<close>

datatype dp_entry =
    Named nat string "int \<Rightarrow> rat"
  | Handler nat "int \<Rightarrow> string \<Rightarrow> store \<Rightarrow> options \<Rightarrow> result \<times> priv"

fun entry_dp :: "dp_entry \<Rightarrow> nat" where
  "entry_dp (Named dp _ _) = dp"
| "entry_dp (Handler dp _) = dp"

definition divideBy10 :: "int \<Rightarrow> rat" where
  "divideBy10 v = js_div (of_int v) 10"

definition divideBy100 :: "int \<Rightarrow> rat" where
  "divideBy100 v = js_div (of_int v) 100"

definition divideBy1000 :: "int \<Rightarrow> rat" where
  "divideBy1000 v = js_div (of_int v) 1000"

definition raw :: "int \<Rightarrow> rat" where
  "raw v = of_int v"

definition object_assign :: "result \<Rightarrow> result \<Rightarrow> result" where
  "object_assign r1 r2 =
     \<lparr> res_power = res_power r1 ++ res_power r2,
       res_energy_flow = res_energy_flow r1 ++ res_energy_flow r2,
       res_timestamp = res_timestamp r1 ++ res_timestamp r2,
       res_current = res_current r1 ++ res_current r2,
       res_power_factor = res_power_factor r1 ++ res_power_factor r2,
       res_power_ab = (case res_power_ab r2 of Some w \<Rightarrow> Some w | None \<Rightarrow> res_power_ab r1),
       res_named = res_named r1 ++ res_named r2 \<rparr>"

fun tuya_datapoints_convert ::
  "dp_entry list \<Rightarrow> (nat \<times> int) list \<Rightarrow> string \<Rightarrow> options \<Rightarrow> result \<Rightarrow> priv \<Rightarrow> result \<times> priv" where
  "tuya_datapoints_convert tbl [] now opts result priv = (result, priv)"
| "tuya_datapoints_convert tbl ((dp, v) # rest) now opts result priv =
     (case find (\<lambda>e. entry_dp e = dp) tbl of
        Some (Named _ name f) \<Rightarrow>
          tuya_datapoints_convert tbl rest now opts
            (result\<lparr>res_named := (res_named result)(name := Some (f v))\<rparr>) priv
      | Some (Handler _ h) \<Rightarrow>
          (let (r, priv1) = h v now (Some priv) opts
           in tuya_datapoints_convert tbl rest now opts (object_assign result r) priv1)
      | None \<Rightarrow> tuya_datapoints_convert tbl rest now opts result priv)"

text \<open>The table \<open>meta.tuyaDatapoints\<close> of the v5 definition.\<close>

definition tuyaDatapoints :: "dp_entry list" where
  "tuyaDatapoints =
     [ Named 111 ''ac_frequency'' divideBy100,
       Named 112 ''voltage'' divideBy10,
       Handler 101 (power_from A),
       Handler 105 (power_from B),
       Handler 113 (current_from A),
       Handler 114 (current_from B),
       Handler 110 (\<lambda>v now. power_factor_from A v),
       Handler 121 (\<lambda>v now. power_factor_from B v),
       Handler 102 (\<lambda>v now. energy_flow_from A v),
       Handler 104 (\<lambda>v now. energy_flow_from B v),
       Handler 115 (\<lambda>v now. power_ab_from v),
       Named 106 ''energy_a'' divideBy100,
       Named 108 ''energy_b'' divideBy100,
       Named 107 ''energy_produced_a'' divideBy100,
       Named 109 ''energy_produced_b'' divideBy100,
       Named 129 ''update_frequency'' raw,
       Named 118 ''calibration_power_a'' divideBy1000,
       Named 124 ''calibration_power_b'' divideBy1000 ]"

definition pj1203aFzDatapoints_convert :: "msg \<Rightarrow> string \<Rightarrow> options \<Rightarrow> store \<Rightarrow> result \<times> priv" where
  "pj1203aFzDatapoints_convert m now opts st =
     (let result = empty_result;
          priv = pj1203aGetPrivateState st;
          priv1 = track_seq priv (data_seq m);
          (r, priv2) = tuya_datapoints_convert tuyaDatapoints (data_dpValues m) now opts
                         empty_result priv1
      in (object_assign result r, priv2))"

text \<open>The empty options bag \<open>{}\<close>: every option takes its default.\<close>

definition no_options :: options where
  "no_options = \<lparr> late_energy_flow = (\<lambda>_. None), signed_power = (\<lambda>_. None),
                   single_zero_remove = None \<rparr>"

section \<open>The variant with publishing modes (\<open>PJ-1203A.js\<close>, functions \<open>PJ1203A_...\<close>)\<close>

text \<open>
  This variant buffers the direction as the label \<open>energy_flow_x\<close>, counts the updates of
  each channel, and has the options \<open>publishing_mode\<close>, \<open>missing_message_detection\<close> and
  \<open>missing_data_behavior\<close>. Its state is the object \<open>meta.device._priv\<close>.
\<close>

record priv_v1 =
  energy_flow_v1 :: "channel \<Rightarrow> string nullable"
  power_v1 :: "channel \<Rightarrow> rat nullable"
  current_v1 :: "channel \<Rightarrow> rat nullable"
  power_factor_v1 :: "channel \<Rightarrow> rat nullable"
  last_seq_v1 :: int
  counter_v1 :: "channel \<Rightarrow> int"

type_synonym store_v1 = "priv_v1 option"

definition PJ1203A_providePrivateState :: "store_v1 \<Rightarrow> priv_v1" where
  "PJ1203A_providePrivateState st =
     (case st of
        None \<Rightarrow> \<lparr> energy_flow_v1 = (\<lambda>_. Null), power_v1 = (\<lambda>_. Null), current_v1 = (\<lambda>_. Null),
                 power_factor_v1 = (\<lambda>_. Null), last_seq_v1 = - 99999, counter_v1 = (\<lambda>_. 0) \<rparr>
      | Some p \<Rightarrow> p)"

definition PJ1203A_SEQ_INCREMENT :: int where
  "PJ1203A_SEQ_INCREMENT = 256"

record options_v1 =
  missing_message_detection :: "bool option"
  publishing_mode :: "string option"
  missing_data_behavior :: "string option"

text \<open>\<open>options?.key || default\<close>: an absent key and a falsy value give the default.\<close>

definition PJ1203A_get_missing_message_detection :: "options_v1 \<Rightarrow> bool" where
  "PJ1203A_get_missing_message_detection opts =
     (case missing_message_detection opts of Some b \<Rightarrow> b | None \<Rightarrow> False)"

definition PJ1203A_get_publishing_mode :: "options_v1 \<Rightarrow> string" where
  "PJ1203A_get_publishing_mode opts =
     (case publishing_mode opts of
        Some s \<Rightarrow> (if s = [] then ''immediate'' else s)
      | None \<Rightarrow> ''immediate'')"

definition PJ1203A_get_missing_data_behavior :: "options_v1 \<Rightarrow> string" where
  "PJ1203A_get_missing_data_behavior opts =
     (case missing_data_behavior opts of
        Some s \<Rightarrow> (if s = [] then ''keep_all'' else s)
      | None \<Rightarrow> ''keep_all'')"

record result_v1 =
  rv_energy_flow :: "channel \<Rightarrow> string nullable option"
  rv_power :: "channel \<Rightarrow> rat nullable option"
  rv_current :: "channel \<Rightarrow> rat nullable option"
  rv_power_factor :: "channel \<Rightarrow> rat nullable option"
  rv_counter :: "channel \<Rightarrow> int option"
  rv_named :: "string \<Rightarrow> rat option"
  rv_msg :: "msg option"

definition empty_result_v1 :: result_v1 where
  "empty_result_v1 = \<lparr> rv_energy_flow = (\<lambda>_. None), rv_power = (\<lambda>_. None),
                        rv_current = (\<lambda>_. None), rv_power_factor = (\<lambda>_. None),
                        rv_counter = (\<lambda>_. None), rv_named = (\<lambda>_. None), rv_msg = None \<rparr>"

definition PJ1203A_next_seq :: "result_v1 \<Rightarrow> priv_v1 \<Rightarrow> channel \<Rightarrow> result_v1 \<times> priv_v1" where
  "PJ1203A_next_seq result priv x =
     (let c = js_bitand (counter_v1 priv x + 1) 0xFFFF
      in (result\<lparr>rv_counter := (rv_counter result)(x := Some c)\<rparr>,
          priv\<lparr>counter_v1 := (counter_v1 priv)(x := c)\<rparr>))"

definition PJ1203A_flush_all ::
  "result_v1 \<Rightarrow> channel \<Rightarrow> priv_v1 \<Rightarrow> options_v1 \<Rightarrow> bool \<Rightarrow> result_v1 \<times> priv_v1" where
  "PJ1203A_flush_all result x priv opts clear =
     (let energy_flow = energy_flow_v1 priv x;
          power = power_v1 priv x;
          current = current_v1 priv x;
          power_factor = power_factor_v1 priv x;
          priv1 = (if clear
                   then priv\<lparr>energy_flow_v1 := (energy_flow_v1 priv)(x := Null),
                              power_v1 := (power_v1 priv)(x := Null),
                              current_v1 := (current_v1 priv)(x := Null),
                              power_factor_v1 := (power_factor_v1 priv)(x := Null)\<rparr>
                   else priv)
      in if energy_flow \<noteq> Null \<and> power \<noteq> Null \<and> current \<noteq> Null \<and> power_factor \<noteq> Null
         then PJ1203A_next_seq
                (result\<lparr>rv_energy_flow := (rv_energy_flow result)(x := Some energy_flow),
                        rv_power := (rv_power result)(x := Some power),
                        rv_current := (rv_current result)(x := Some current),
                        rv_power_factor := (rv_power_factor result)(x := Some power_factor)\<rparr>)
                priv1 x
         else (let missing_data_behavior = PJ1203A_get_missing_data_behavior opts;
                   result1 =
                     (if missing_data_behavior = ''keep_missing''
                      then (let r1 = (if energy_flow \<noteq> Null
                                      then result\<lparr>rv_energy_flow := (rv_energy_flow result)(x := Some energy_flow)\<rparr>
                                      else result);
                                r2 = (if power \<noteq> Null
                                      then r1\<lparr>rv_power := (rv_power r1)(x := Some power)\<rparr> else r1);
                                r3 = (if current \<noteq> Null
                                      then r2\<lparr>rv_current := (rv_current r2)(x := Some current)\<rparr> else r2)
                            in if power_factor \<noteq> Null
                               then r3\<lparr>rv_power_factor := (rv_power_factor r3)(x := Some power_factor)\<rparr>
                               else r3)
                      else if missing_data_behavior = ''nullify_missing''
                      then result\<lparr>rv_energy_flow := (rv_energy_flow result)(x := Some energy_flow),
                                  rv_power := (rv_power result)(x := Some power),
                                  rv_current := (rv_current result)(x := Some current),
                                  rv_power_factor := (rv_power_factor result)(x := Some power_factor)\<rparr>
                      else if missing_data_behavior = ''nullify_all''
                      then result\<lparr>rv_energy_flow := (rv_energy_flow result)(x := Some Null),
                                  rv_power := (rv_power result)(x := Some Null),
                                  rv_current := (rv_current result)(x := Some Null),
                                  rv_power_factor := (rv_power_factor result)(x := Some Null)\<rparr>
                      else result)
               in PJ1203A_next_seq result1 priv1 x))"

definition PJ1203A_flush_zero ::
  "result_v1 \<Rightarrow> channel \<Rightarrow> priv_v1 \<Rightarrow> options_v1 \<Rightarrow> result_v1 \<times> priv_v1" where
  "PJ1203A_flush_zero result x priv opts =
     (let priv1 = priv\<lparr>energy_flow_v1 := (energy_flow_v1 priv)(x := Val ''consuming'')\<rparr>;
          priv2 = priv1\<lparr>power_v1 := (power_v1 priv1)(x := Val 0)\<rparr>;
          priv3 = priv2\<lparr>current_v1 := (current_v1 priv2)(x := Val 0)\<rparr>;
          priv4 = priv3\<lparr>power_factor_v1 := (power_factor_v1 priv3)(x := Val 100)\<rparr>
      in PJ1203A_flush_all result x priv4 opts False)"

definition PJ1203A_energy_flow_from ::
  "channel \<Rightarrow> int \<Rightarrow> store_v1 \<Rightarrow> options_v1 \<Rightarrow> result_v1 \<times> priv_v1" where
  "PJ1203A_energy_flow_from x v st opts =
     (let priv = PJ1203A_providePrivateState st;
          result = empty_result_v1;
          flow = (if v = 0 then ''consuming'' else if v = 1 then ''producing'' else ''unknown'');
          priv1 = priv\<lparr>energy_flow_v1 := (energy_flow_v1 priv)(x := Val flow)\<rparr>;
          publishing_mode = PJ1203A_get_publishing_mode opts
      in if publishing_mode = ''immediate''
         then PJ1203A_next_seq (result\<lparr>rv_energy_flow := (rv_energy_flow result)(x := Some (Val flow))\<rparr>)
                priv1 x
         else if publishing_mode = ''at_energy_flow''
         then PJ1203A_flush_all result x priv1 opts True
         else (result, priv1))"

definition PJ1203A_power_from ::
  "channel \<Rightarrow> int \<Rightarrow> store_v1 \<Rightarrow> options_v1 \<Rightarrow> result_v1 \<times> priv_v1" where
  "PJ1203A_power_from x v st opts =
     (let priv = PJ1203A_providePrivateState st;
          result = empty_result_v1;
          power = js_div (of_int v) 10;
          priv1 = priv\<lparr>power_v1 := (power_v1 priv)(x := Val power)\<rparr>
      in if v = 0 then PJ1203A_flush_zero result x priv1 opts
         else (let publishing_mode = PJ1203A_get_publishing_mode opts
               in if publishing_mode = ''immediate''
                  then PJ1203A_next_seq (result\<lparr>rv_power := (rv_power result)(x := Some (Val power))\<rparr>)
                         priv1 x
                  else (result, priv1)))"

definition PJ1203A_current_from ::
  "channel \<Rightarrow> int \<Rightarrow> store_v1 \<Rightarrow> options_v1 \<Rightarrow> result_v1 \<times> priv_v1" where
  "PJ1203A_current_from x v st opts =
     (let priv = PJ1203A_providePrivateState st;
          result = empty_result_v1;
          current = js_div (of_int v) 1000;
          priv1 = priv\<lparr>current_v1 := (current_v1 priv)(x := Val current)\<rparr>
      in if v = 0 then PJ1203A_flush_zero result x priv1 opts
         else (let publishing_mode = PJ1203A_get_publishing_mode opts
               in if publishing_mode = ''immediate''
                  then PJ1203A_next_seq (result\<lparr>rv_current := (rv_current result)(x := Some (Val current))\<rparr>)
                         priv1 x
                  else (result, priv1)))"

definition PJ1203A_power_factor_from ::
  "channel \<Rightarrow> int \<Rightarrow> store_v1 \<Rightarrow> options_v1 \<Rightarrow> result_v1 \<times> priv_v1" where
  "PJ1203A_power_factor_from x v st opts =
     (let priv = PJ1203A_providePrivateState st;
          result = empty_result_v1;
          power_factor = of_int v;
          priv1 = priv\<lparr>power_factor_v1 := (power_factor_v1 priv)(x := Val power_factor)\<rparr>;
          publishing_mode = PJ1203A_get_publishing_mode opts
      in if publishing_mode = ''immediate''
         then PJ1203A_next_seq
                (result\<lparr>rv_power_factor := (rv_power_factor result)(x := Some (Val power_factor))\<rparr>)
                priv1 x
         else if publishing_mode = ''at_power_factor''
         then PJ1203A_flush_all result x priv1 opts True
         else (result, priv1))"

definition PJ1203A_ignore_tuya_set_time_convert :: "store_v1 \<Rightarrow> priv_v1" where
  "PJ1203A_ignore_tuya_set_time_convert st =
     (let priv = PJ1203A_providePrivateState st
      in priv\<lparr>last_seq_v1 := last_seq_v1 priv + PJ1203A_SEQ_INCREMENT\<rparr>)"

definition expected_seq_v1 :: "priv_v1 \<Rightarrow> int" where
  "expected_seq_v1 priv = js_bitand (last_seq_v1 priv + PJ1203A_SEQ_INCREMENT) 0xFFFF"

definition gap_detected_v1 :: "priv_v1 \<Rightarrow> int \<Rightarrow> bool" where
  "gap_detected_v1 priv s = (s \<noteq> expected_seq_v1 priv \<and> s \<noteq> last_seq_v1 priv)"

definition clear_pending_v1 :: "priv_v1 \<Rightarrow> priv_v1" where
  "clear_pending_v1 priv =
     priv\<lparr>energy_flow_v1 := (\<lambda>_. Null), power_v1 := (\<lambda>_. Null), current_v1 := (\<lambda>_. Null),
           power_factor_v1 := (\<lambda>_. Null)\<rparr>"

definition track_seq_v1 :: "options_v1 \<Rightarrow> priv_v1 \<Rightarrow> int \<Rightarrow> priv_v1" where
  "track_seq_v1 opts priv s =
     (let priv1 = (if PJ1203A_get_missing_message_detection opts
                   then (if gap_detected_v1 priv s then clear_pending_v1 priv else priv)
                   else priv)
      in priv1\<lparr>last_seq_v1 := s\<rparr>)"

text \<open>The dispatch of the library, as above, on the record of this variant.\<close>

datatype dp_entry_v1 =
    Named_v1 nat string "int \<Rightarrow> rat"
  | Handler_v1 nat "int \<Rightarrow> store_v1 \<Rightarrow> options_v1 \<Rightarrow> result_v1 \<times> priv_v1"

fun entry_dp_v1 :: "dp_entry_v1 \<Rightarrow> nat" where
  "entry_dp_v1 (Named_v1 dp _ _) = dp"
| "entry_dp_v1 (Handler_v1 dp _) = dp"

definition object_assign_v1 :: "result_v1 \<Rightarrow> result_v1 \<Rightarrow> result_v1" where
  "object_assign_v1 r1 r2 =
     \<lparr> rv_energy_flow = rv_energy_flow r1 ++ rv_energy_flow r2,
       rv_power = rv_power r1 ++ rv_power r2,
       rv_current = rv_current r1 ++ rv_current r2,
       rv_power_factor = rv_power_factor r1 ++ rv_power_factor r2,
       rv_counter = rv_counter r1 ++ rv_counter r2,
       rv_named = rv_named r1 ++ rv_named r2,
       rv_msg = (case rv_msg r2 of Some m \<Rightarrow> Some m | None \<Rightarrow> rv_msg r1) \<rparr>"

fun tuya_datapoints_convert_v1 ::
  "dp_entry_v1 list \<Rightarrow> (nat \<times> int) list \<Rightarrow> options_v1 \<Rightarrow> result_v1 \<Rightarrow> priv_v1
     \<Rightarrow> result_v1 \<times> priv_v1" where
  "tuya_datapoints_convert_v1 tbl [] opts result priv = (result, priv)"
| "tuya_datapoints_convert_v1 tbl ((dp, v) # rest) opts result priv =
     (case find (\<lambda>e. entry_dp_v1 e = dp) tbl of
        Some (Named_v1 _ name f) \<Rightarrow>
          tuya_datapoints_convert_v1 tbl rest opts
            (result\<lparr>rv_named := (rv_named result)(name := Some (f v))\<rparr>) priv
      | Some (Handler_v1 _ h) \<Rightarrow>
          (let (r, priv1) = h v (Some priv) opts
           in tuya_datapoints_convert_v1 tbl rest opts (object_assign_v1 result r) priv1)
      | None \<Rightarrow> tuya_datapoints_convert_v1 tbl rest opts result priv)"

definition tuyaDatapoints_v1 :: "dp_entry_v1 list" where
  "tuyaDatapoints_v1 =
     [ Named_v1 111 ''ac_frequency'' divideBy100,
       Named_v1 112 ''voltage'' divideBy10,
       Handler_v1 101 (PJ1203A_power_from A),
       Handler_v1 105 (PJ1203A_power_from B),
       Handler_v1 113 (PJ1203A_current_from A),
       Handler_v1 114 (PJ1203A_current_from B),
       Handler_v1 110 (PJ1203A_power_factor_from A),
       Handler_v1 121 (PJ1203A_power_factor_from B),
       Handler_v1 102 (PJ1203A_energy_flow_from A),
       Handler_v1 104 (PJ1203A_energy_flow_from B),
       Named_v1 115 ''power_ab'' divideBy10,
       Named_v1 106 ''energy_a'' divideBy100,
       Named_v1 108 ''energy_b'' divideBy100,
       Named_v1 107 ''energy_produced_a'' divideBy100,
       Named_v1 109 ''energy_produced_b'' divideBy100,
       Named_v1 129 ''update_frequency'' raw ]"

definition PJ1203A_fz_datapoints_convert ::
  "msg \<Rightarrow> options_v1 \<Rightarrow> store_v1 \<Rightarrow> result_v1 \<times> priv_v1" where
  "PJ1203A_fz_datapoints_convert m opts st =
     (let result = empty_result_v1;
          priv = PJ1203A_providePrivateState st;
          priv1 = track_seq_v1 opts priv (data_seq m);
          result1 = result\<lparr>rv_msg := Some m\<rparr>;
          (r, priv2) = tuya_datapoints_convert_v1 tuyaDatapoints_v1 (data_dpValues m) opts
                         empty_result_v1 priv1
      in (object_assign_v1 result1 r, priv2))"

definition no_options_v1 :: options_v1 where
  "no_options_v1 = \<lparr> missing_message_detection = None, publishing_mode = None,
                      missing_data_behavior = None \<rparr>"

text \<open>
  The classes of the sequence tracker as the specification words them, for a state with
  last sequence number \<open>l\<close> and increment \<open>inc\<close>.
\<close>

datatype seq_class = Duplicate | InOrder | Gap

definition spec_classify :: "int \<Rightarrow> int \<Rightarrow> int \<Rightarrow> seq_class" where
  "spec_classify l inc s =
     (if s = l then Duplicate
      else if s = (l + inc) mod 65536 then InOrder
      else Gap)"

text \<open>Option bags with one option switched on, and the other options absent.\<close>

definition signed_options :: options where
  "signed_options = no_options\<lparr>signed_power := (\<lambda>_. Some True)\<rparr>"

definition late_options :: options where
  "late_options = no_options\<lparr>late_energy_flow := (\<lambda>_. Some True)\<rparr>"

definition zero_remove_options :: options where
  "zero_remove_options = no_options\<lparr>single_zero_remove := Some True\<rparr>"

text \<open>
  One update of channel \<open>x\<close> on a fresh device, in the order in which the device sends
  it: the direction code, a current of 1 A, the raw power, a power factor of 95.
\<close>

definition one_cycle :: "options \<Rightarrow> channel \<Rightarrow> int \<Rightarrow> int \<Rightarrow> result \<times> priv" where
  "one_cycle opts x code rawp =
     (let p1 = snd (energy_flow_from x code None opts);
          p2 = snd (current_from x 1000 ''t1'' (Some p1) opts);
          p3 = snd (power_from x rawp ''t2'' (Some p2) opts)
      in power_factor_from x 95 (Some p3) opts)"

section \<open>Runs of the v5 converter\<close>

text \<open>
  The device is fed a sequence of events: datapoint messages, each processed at some
  time \<open>now\<close>, and \<open>commandMcuSyncTime\<close> messages, which publish nothing.
\<close>

datatype event = Datapoints msg string | SyncTime

fun process :: "options \<Rightarrow> store \<Rightarrow> event \<Rightarrow> result \<times> priv" where
  "process opts st (Datapoints m now) = pj1203aFzDatapoints_convert m now opts st"
| "process opts st SyncTime = (empty_result, pj1203aIgnoreTuyaSetTime_convert st)"

text \<open>\<open>run\<close> returns the emitted records in the order of the events, and the final store.\<close>

fun run :: "options \<Rightarrow> store \<Rightarrow> event list \<Rightarrow> result list \<times> store" where
  "run opts st [] = ([], st)"
| "run opts st (e # es) =
     (case process opts st e of
        (r, p) \<Rightarrow> (case run opts (Some p) es of (rs, st') \<Rightarrow> (r # rs, st')))"

text \<open>Raw datapoint values are 4-byte integers.\<close>

fun raw_bounded :: "event \<Rightarrow> bool" where
  "raw_bounded (Datapoints m now) = list_all (\<lambda>(dp, v). \<bar>v\<bar> \<le> 2 ^ 32) (data_dpValues m)"
| "raw_bounded SyncTime = True"

text \<open>
  What the specification speaks of. The signed power that a record emits for channel
  \<open>x\<close> is its \<open>power_x\<close>, negated when its \<open>energy_flow_x\<close> is \<open>producing\<close>, in exact
  arithmetic; \<open>last_signed x rs\<close> is the most recent one among the records \<open>rs\<close>.
\<close>

definition signed_power_of :: "result \<Rightarrow> channel \<Rightarrow> rat option" where
  "signed_power_of r x =
     (case res_power r x of
        None \<Rightarrow> None
      | Some w \<Rightarrow> Some (to_number w *
                        (if res_energy_flow r x = Some (Val ''producing'') then - 1 else 1)))"

fun last_signed :: "channel \<Rightarrow> result list \<Rightarrow> rat option" where
  "last_signed x [] = None"
| "last_signed x (r # rs) =
     (case last_signed x rs of Some a \<Rightarrow> Some a | None \<Rightarrow> signed_power_of r x)"

text \<open>The expression that \<open>pj1203aRecomputePowerAb\<close> evaluates on the signed powers.\<close>

definition recomputed_power_ab :: "rat \<Rightarrow> rat \<Rightarrow> rat" where
  "recomputed_power_ab a b = js_div (Math_round (js_add (js_mul 10 a) (js_mul 10 b))) 10"

text \<open>
  The \<open>power_ab\<close> that a record must hold if it only ever comes from the recomputation:
  present exactly when the record publishes a power and both channels have a last
  published signed power.
\<close>

definition expected_power_ab :: "result \<Rightarrow> priv \<Rightarrow> rat nullable option" where
  "expected_power_ab r p =
     (if res_power r A \<noteq> None \<or> res_power r B \<noteq> None
      then (case (pub_power_x p A, pub_power_x p B) of
              (Val a, Val b) \<Rightarrow> Some (Val (recomputed_power_ab a b))
            | _ \<Rightarrow> None)
      else None)"

text \<open>
  Invariants of the proofs below. A buffered sign is \<open>+1\<close> or \<open>-1\<close>; a buffered or
  published power is the binary64 value of a number of tenths \<open>k / 10\<close>.
\<close>

definition known_sign :: "rat nullable \<Rightarrow> bool" where
  "known_sign s = (s = Null \<or> s = Val 1 \<or> s = Val (- 1))"

definition tenth :: "rat nullable \<Rightarrow> bool" where
  "tenth a = (case a of Null \<Rightarrow> True
              | Val q \<Rightarrow> (\<exists>k. \<bar>k\<bar> \<le> 2 ^ 32 \<and> q = fl64 (of_int k / 10)))"

definition wf_priv :: "priv \<Rightarrow> bool" where
  "wf_priv p = (\<forall>x. known_sign (sign_x p x) \<and> tenth (power_x p x) \<and> tenth (pub_power_x p x))"

text \<open>
  \<open>step_ok p r p'\<close>: from state \<open>p\<close>, the record \<open>r\<close> was emitted and the state \<open>p'\<close>
  left, and the published signed powers and \<open>power_ab\<close> are accounted for.
\<close>

definition step_ok :: "priv \<Rightarrow> result \<Rightarrow> priv \<Rightarrow> bool" where
  "step_ok p r p' =
     (wf_priv p'
      \<and> (\<forall>x. pub_power_x p' x =
             (case signed_power_of r x of Some a \<Rightarrow> Val a | None \<Rightarrow> pub_power_x p x))
      \<and> res_power_ab r = expected_power_ab r p'
      \<and> (\<forall>x. (res_power r x = None) = (res_energy_flow r x = None)))"

text \<open>
  \<open>step_ab p r p'\<close>: the part of the account that needs no assumption on the values:
  a channel whose power is not in the record keeps its last published signed power, a
  last published signed power never goes back to empty, and \<open>power_ab\<close> is the
  recomputed one.
\<close>

definition step_ab :: "priv \<Rightarrow> result \<Rightarrow> priv \<Rightarrow> bool" where
  "step_ab p r p' =
     ((\<forall>x. res_power r x = None \<longrightarrow> pub_power_x p' x = pub_power_x p x)
      \<and> (\<forall>x. pub_power_x p' x = Null \<longrightarrow> pub_power_x p x = Null)
      \<and> res_power_ab r = expected_power_ab r p')"

text \<open>
  An update of both channels in two messages: channel A consumes 79.8 W, channel B
  produces 37.1 W. The first sequence number is the one that a fresh device expects.
\<close>

definition example_events :: "event list" where
  "example_events =
     [ Datapoints \<lparr>data_seq = 31329,
                   data_dpValues = [(102, 0), (113, 347), (101, 798), (110, 99)]\<rparr> ''t1'',
       Datapoints \<lparr>data_seq = 31585,
                   data_dpValues = [(104, 1), (114, 161), (105, 371), (121, 98)]\<rparr> ''t2'' ]"

text \<open>
  The state in which channel A has published 79.8 W, consuming, and channel B has
  buffered a complete update: 37.1 W, producing.
\<close>

definition example_state :: priv where
  "example_state =
     (pj1203aGetPrivateState None)
       \<lparr>sign_x := (\<lambda>_. Null)(B := Val (- 1)),
        power_x := (\<lambda>_. Null)(B := Val (js_div 371 10)),
        current_x := (\<lambda>_. Null)(B := Val (js_div 161 1000)),
        power_factor_x := (\<lambda>_. Null)(B := Val 98),
        pub_power_x := (\<lambda>_. Null)(A := Val (js_div 798 10))\<rparr>"

text \<open>
  The condition under which \<open>PJ1203A_fz_datapoints.convert\<close> of \<open>PJ-1203A.js\<close> reaches its
  clearing statements: the option is on and the test on the sequence number holds.
\<close>

definition clearing_branch_v1 :: "options_v1 \<Rightarrow> priv_v1 \<Rightarrow> int \<Rightarrow> bool" where
  "clearing_branch_v1 opts priv s =
     (PJ1203A_get_missing_message_detection opts \<and> gap_detected_v1 priv s)"

definition detection_options_v1 :: options_v1 where
  "detection_options_v1 = no_options_v1\<lparr>missing_message_detection := Some True\<rparr>"

text \<open>
  A state in the middle of an update: both channels have buffered their four fields,
  both have published a power, and the last sequence number is 1000.
\<close>

definition buffered_state :: priv where
  "buffered_state =
     (pj1203aGetPrivateState None)
       \<lparr>sign_x := (\<lambda>_. Null)(A := Val 1, B := Val (- 1)),
        power_x := (\<lambda>_. Null)(A := Val 15, B := Val 20),
        current_x := (\<lambda>_. Null)(A := Val 1, B := Val 2),
        power_factor_x := (\<lambda>_. Null)(A := Val 95, B := Val 98),
        last_seq := 1000,
        pub_power_x := (\<lambda>_. Null)(A := Val 7, B := Val (- 3))\<rparr>"

text \<open>A message numbered 5000 that carries the voltage only.\<close>

definition voltage_msg :: msg where
  "voltage_msg = \<lparr>data_seq = 5000, data_dpValues = [(112, 2300)]\<rparr>"

text \<open>
  A message in sequence after 1000 that carries the total of the device, 42.7 W, and a
  power of 0 on channel B.
\<close>

definition total_msg :: msg where
  "total_msg = \<lparr>data_seq = 1256, data_dpValues = [(115, 427), (105, 0)]\<rparr>"

section \<open>Facts about the number model\<close>

lemma fl64_0: "fl64 0 = 0"
  by (simp add: fl64_def)

lemma js_bitand_FFFF: "js_bitand n 0xFFFF = n mod 65536"
proof -
  have a: "to_int32 65535 = 65535" by (simp add: to_int32_def)
  have "to_int32 n AND 65535 = take_bit 16 (to_int32 n)"
    by (simp add: take_bit_eq_mask mask_eq_exp_minus_1)
  also have "\<dots> = take_bit 16 n"
    by (simp add: to_int32_def sint_sbintrunc' take_bit_signed_take_bit)
  finally show ?thesis by (simp add: js_bitand_def a take_bit_eq_mod)
qed

section \<open>The zero shortcut\<close>

lemma flush_zero_emits:
  "pj1203aFlushZero empty_result x priv opts now = (r, priv') \<Longrightarrow>
     res_power r x = Some (Val 0) \<and> res_current r x = Some (Val 0) \<and>
     res_power_factor r x = Some (Val 100) \<and>
     res_energy_flow r x = Some (Val (if pj1203aGetSignedPower opts x then ''sign'' else ''consuming'')) \<and>
     res_timestamp r x = Some (Val now)"
  by (auto simp add: pj1203aFlushZero_def pj1203aFlushAll_def pj1203aRecomputePowerAb_def
      Let_def js_mul_def fl64_0 empty_result_def split: prod.splits nullable.splits option.splits)

text \<open>
  C1. With the option \<open>single_zero_remove\<close> off, a \<open>power\<close> or a \<open>current\<close> datapoint of
  value 0 on channel \<open>x\<close> emits, from any state of the store, the complete record of the
  channel: power 0, current 0, power factor 100, the time of the call, and the direction
  of sign +1, that is \<open>consuming\<close>, or \<open>sign\<close> with the power \<open>+1 * 0\<close> when the power of
  the channel is signed.
\<close>

theorem zero_shortcut_complete:
  assumes "\<not> pj1203aGetSingleZeroRemove opts"
  shows "res_power (fst (power_from x 0 now st opts)) x = Some (Val 0)
       \<and> res_current (fst (power_from x 0 now st opts)) x = Some (Val 0)
       \<and> res_power_factor (fst (power_from x 0 now st opts)) x = Some (Val 100)
       \<and> res_energy_flow (fst (power_from x 0 now st opts)) x
           = Some (Val (if pj1203aGetSignedPower opts x then ''sign'' else ''consuming''))
       \<and> res_timestamp (fst (power_from x 0 now st opts)) x = Some (Val now)
       \<and> res_power (fst (current_from x 0 now st opts)) x = Some (Val 0)
       \<and> res_current (fst (current_from x 0 now st opts)) x = Some (Val 0)
       \<and> res_power_factor (fst (current_from x 0 now st opts)) x = Some (Val 100)
       \<and> res_energy_flow (fst (current_from x 0 now st opts)) x
           = Some (Val (if pj1203aGetSignedPower opts x then ''sign'' else ''consuming''))
       \<and> res_timestamp (fst (current_from x 0 now st opts)) x = Some (Val now)"
proof -
  obtain r p where a: "pj1203aFlushZero empty_result x
      ((pj1203aGetPrivateState st)\<lparr>power_x := (power_x (pj1203aGetPrivateState st))(x := Val (js_div 0 10)),
         timestamp_x := (timestamp_x (pj1203aGetPrivateState st))(x := Val now)\<rparr>) opts now = (r, p)"
    by (cases "pj1203aFlushZero empty_result x
      ((pj1203aGetPrivateState st)\<lparr>power_x := (power_x (pj1203aGetPrivateState st))(x := Val (js_div 0 10)),
         timestamp_x := (timestamp_x (pj1203aGetPrivateState st))(x := Val now)\<rparr>) opts now") blast
  obtain r' p' where b: "pj1203aFlushZero empty_result x
      ((pj1203aGetPrivateState st)\<lparr>current_x := (current_x (pj1203aGetPrivateState st))(x := Val (js_div 0 1000))\<rparr>)
      opts now = (r', p')"
    by (cases "pj1203aFlushZero empty_result x
      ((pj1203aGetPrivateState st)\<lparr>current_x := (current_x (pj1203aGetPrivateState st))(x := Val (js_div 0 1000))\<rparr>)
      opts now") blast
  have "fst (power_from x 0 now st opts) = r"
    using assms a by (simp add: power_from_def Let_def)
  moreover have "fst (current_from x 0 now st opts) = r'"
    using assms b by (simp add: current_from_def Let_def)
  ultimately show ?thesis
    using flush_zero_emits [OF a] flush_zero_emits [OF b] by simp
qed

theorem zero_shortcut_complete_witness:
  "\<not> pj1203aGetSingleZeroRemove no_options
   \<and> res_power (fst (power_from A 0 ''t'' None no_options)) A = Some (Val 0)
   \<and> res_energy_flow (fst (power_from A 0 ''t'' None no_options)) A = Some (Val ''consuming'')
   \<and> res_power_factor (fst (current_from A 0 ''t'' None no_options)) A = Some (Val 100)"
proof -
  have h: "\<not> pj1203aGetSingleZeroRemove no_options"
    by (simp add: pj1203aGetSingleZeroRemove_def no_options_def)
  have s: "\<not> pj1203aGetSignedPower no_options A"
    by (simp add: pj1203aGetSignedPower_def no_options_def)
  show ?thesis
    using h s zero_shortcut_complete [OF h, of A "''t''" None] by simp
qed

section \<open>The sequence tracker\<close>

lemma last_seq_RecomputePowerAb:
  "last_seq (snd (pj1203aRecomputePowerAb r p)) = last_seq p"
  by (simp add: pj1203aRecomputePowerAb_def Let_def split: option.splits nullable.splits prod.splits)

lemma last_seq_FlushAll:
  "last_seq (snd (snd (pj1203aFlushAll r x p opts))) = last_seq p"
  by (simp add: pj1203aFlushAll_def Let_def split_beta last_seq_RecomputePowerAb split: nullable.splits)

lemma last_seq_FlushZero:
  "last_seq (snd (pj1203aFlushZero r x p opts now)) = last_seq p"
  by (simp add: pj1203aFlushZero_def Let_def last_seq_FlushAll)

lemma last_seq_FlushNull:
  "last_seq (snd (pj1203aFlushNull r x p opts now)) = last_seq p"
  by (simp add: pj1203aFlushNull_def Let_def last_seq_FlushAll)

lemma last_seq_handlers:
  "last_seq (snd (power_from x v now (Some p) opts)) = last_seq p"
  "last_seq (snd (current_from x v now (Some p) opts)) = last_seq p"
  "last_seq (snd (power_factor_from x v (Some p) opts)) = last_seq p"
  "last_seq (snd (energy_flow_from x v (Some p) opts)) = last_seq p"
  "last_seq (snd (power_ab_from v (Some p) opts)) = last_seq p"
  by (simp_all add: power_from_def current_from_def power_factor_from_def energy_flow_from_def
      power_ab_from_def pj1203aGetPrivateState_def Let_def split_beta
      last_seq_FlushAll last_seq_FlushZero last_seq_FlushNull)

lemma find_in_set: "find P xs = Some x \<Longrightarrow> x \<in> set xs"
  by (induction xs) (auto split: if_splits)

lemma table_handler:
  assumes "find (\<lambda>e. entry_dp e = dp) tuyaDatapoints = Some (Handler d h)"
  shows "h = power_from A \<or> h = power_from B \<or> h = current_from A \<or> h = current_from B
       \<or> h = (\<lambda>v now. power_factor_from A v) \<or> h = (\<lambda>v now. power_factor_from B v)
       \<or> h = (\<lambda>v now. energy_flow_from A v) \<or> h = (\<lambda>v now. energy_flow_from B v)
       \<or> h = (\<lambda>v now. power_ab_from v)"
proof -
  from assms have "Handler d h \<in> set tuyaDatapoints"
    by (rule find_in_set)
  then show ?thesis unfolding tuyaDatapoints_def by simp blast
qed

lemma in_order_not_duplicate:
  assumes "(s::int) = (l + 256) mod 65536" shows "s \<noteq> l"
proof
  assume "s = l"
  with assms have "l = (l + 256) mod 65536" by simp
  then have "l mod 65536 = (l + 256) mod 65536"
    by (metis mod_mod_trivial)
  then have "(65536::int) dvd l - (l + 256)"
    by (simp only: mod_eq_dvd_iff)
  then have "(65536::int) dvd - 256" by simp
  then show False by simp
qed

lemma last_seq_dispatch:
  "last_seq (snd (tuya_datapoints_convert tuyaDatapoints dps now opts r p)) = last_seq p"
proof (induction dps arbitrary: r p)
  case Nil
  then show ?case by simp
next
  case (Cons a dps)
  obtain dp v where a: "a = (dp, v)" by (cases a)
  show ?case
  proof (cases "find (\<lambda>e. entry_dp e = dp) tuyaDatapoints")
    case None
    then show ?thesis using Cons a by simp
  next
    case (Some e)
    show ?thesis
    proof (cases e)
      case (Named d n f)
      then show ?thesis using Cons a Some by simp
    next
      case (Handler d h)
      have "last_seq (snd (h v now (Some p) opts)) = last_seq p"
        using table_handler [OF Some [unfolded Handler]]
        by (elim disjE) (simp_all add: last_seq_handlers)
      then show ?thesis using Cons a Some Handler by (simp add: split_beta)
    qed
  qed
qed

lemma last_seq_track_seq: "last_seq (track_seq p s) = s"
  by (simp add: track_seq_def Let_def)

text \<open>
  C2. In a state whose increment is 256 (the only value the code ever stores), a sequence
  number is a duplicate exactly when it equals \<open>last_seq\<close>, in order exactly when it
  equals \<open>(last_seq + seq_inc) mod 65536\<close>, and a gap otherwise; the gap class is the
  test of the clearing branch of \<open>convert\<close> (in \<open>PJ-1203A.js\<close> too, where the test runs
  under \<open>missing_message_detection\<close>); and after the tracker, and after the whole
  message, \<open>last_seq\<close> is the sequence number of the message.
\<close>

theorem sequence_tracker_classifies:
  assumes "seq_inc priv = 256"
  shows "(spec_classify (last_seq priv) (seq_inc priv) s = Duplicate \<longleftrightarrow> s = last_seq priv)
       \<and> (spec_classify (last_seq priv) (seq_inc priv) s = InOrder
            \<longleftrightarrow> s = (last_seq priv + seq_inc priv) mod 65536)
       \<and> (spec_classify (last_seq priv) (seq_inc priv) s = Gap \<longleftrightarrow> gap_detected priv s)
       \<and> last_seq (track_seq priv s) = s
       \<and> last_seq (snd (pj1203aFzDatapoints_convert m now opts (Some priv))) = data_seq m
       \<and> (spec_classify (last_seq_v1 q) PJ1203A_SEQ_INCREMENT s = Gap \<longleftrightarrow> gap_detected_v1 q s)
       \<and> last_seq_v1 (track_seq_v1 opts1 q s) = s"
proof -
  have e: "expected_seq priv = (last_seq priv + 256) mod 65536"
    using assms by (simp add: expected_seq_def js_bitand_FFFF)
  have e1: "expected_seq_v1 q = (last_seq_v1 q + 256) mod 65536"
    by (simp add: expected_seq_v1_def js_bitand_FFFF PJ1203A_SEQ_INCREMENT_def)
  have c1: "spec_classify (last_seq priv) (seq_inc priv) s = Duplicate \<longleftrightarrow> s = last_seq priv"
    by (simp add: spec_classify_def)
  have c2: "spec_classify (last_seq priv) (seq_inc priv) s = InOrder
            \<longleftrightarrow> s = (last_seq priv + seq_inc priv) mod 65536"
  proof (cases "s = last_seq priv")
    case True
    then have "s \<noteq> (last_seq priv + 256) mod 65536"
      using in_order_not_duplicate [of s "last_seq priv"] by blast
    then show ?thesis using True assms by (simp add: spec_classify_def)
  next
    case False
    then show ?thesis by (simp add: spec_classify_def)
  qed
  have c3: "spec_classify (last_seq priv) (seq_inc priv) s = Gap \<longleftrightarrow> gap_detected priv s"
    unfolding spec_classify_def gap_detected_def e assms by simp
  have c4: "last_seq (track_seq priv s) = s"
    by (rule last_seq_track_seq)
  have c5: "last_seq (snd (pj1203aFzDatapoints_convert m now opts (Some priv))) = data_seq m"
    by (simp add: pj1203aFzDatapoints_convert_def Let_def split_beta last_seq_dispatch
        last_seq_track_seq)
  have c6: "spec_classify (last_seq_v1 q) PJ1203A_SEQ_INCREMENT s = Gap \<longleftrightarrow> gap_detected_v1 q s"
    unfolding spec_classify_def gap_detected_v1_def e1 PJ1203A_SEQ_INCREMENT_def by simp
  have c7: "last_seq_v1 (track_seq_v1 opts1 q s) = s"
    by (simp add: track_seq_v1_def Let_def)
  show ?thesis by (intro conjI c1 c2 c3 c4 c5 c6 c7)
qed

theorem sequence_tracker_classifies_witness:
  "seq_inc (pj1203aGetPrivateState None) = 256
   \<and> spec_classify (last_seq (pj1203aGetPrivateState None)) (seq_inc (pj1203aGetPrivateState None)) 31329
       = InOrder
   \<and> gap_detected (pj1203aGetPrivateState None) 0
   \<and> last_seq (track_seq (pj1203aGetPrivateState None) 31329) = 31329"
proof -
  have h: "seq_inc (pj1203aGetPrivateState None) = 256"
    by (simp add: pj1203aGetPrivateState_def)
  have l: "last_seq (pj1203aGetPrivateState None) = - 99999"
    by (simp add: pj1203aGetPrivateState_def)
  have g: "spec_classify (- 99999) 256 0 = Gap"
    by (simp add: spec_classify_def)
  show ?thesis
    using sequence_tracker_classifies [OF h, of 31329] sequence_tracker_classifies [OF h, of 0] g
    by (simp add: h l)
qed

lemma expected_seq_init: "expected_seq (pj1203aGetPrivateState None) = 31329"
  by (simp add: expected_seq_def js_bitand_FFFF pj1203aGetPrivateState_def)

lemma expected_seq_v1_init: "expected_seq_v1 (PJ1203A_providePrivateState None) = 31329"
  by (simp add: expected_seq_v1_def js_bitand_FFFF PJ1203A_providePrivateState_def
      PJ1203A_SEQ_INCREMENT_def)

text \<open>
  C4. When the test of the clearing branch holds, the state that \<open>convert\<close> hands to the
  dispatch has \<open>sign\<close>, \<open>power\<close>, \<open>current\<close> and \<open>power_factor\<close> empty on every
  channel \<open>x\<close>, and \<open>pub_power_a\<close> and \<open>pub_power_b\<close> as they were.
\<close>

theorem gap_clears_both_channels:
  assumes "gap_detected priv s"
  shows "sign_x (track_seq priv s) x = Null
       \<and> power_x (track_seq priv s) x = Null
       \<and> current_x (track_seq priv s) x = Null
       \<and> power_factor_x (track_seq priv s) x = Null
       \<and> pub_power_x (track_seq priv s) = pub_power_x priv
       \<and> pj1203aFzDatapoints_convert m now opts st =
              (case tuya_datapoints_convert tuyaDatapoints (data_dpValues m) now opts empty_result
                      (track_seq (pj1203aGetPrivateState st) (data_seq m)) of
                 (r, priv2) \<Rightarrow> (object_assign empty_result r, priv2))"
  using assms
  by (simp add: track_seq_def clear_pending_def pj1203aFzDatapoints_convert_def Let_def)

theorem gap_clears_both_channels_witness:
  "gap_detected buffered_state 5000
   \<and> sign_x buffered_state A = Val 1 \<and> sign_x buffered_state B = Val (- 1)
   \<and> power_x buffered_state A = Val 15 \<and> power_x buffered_state B = Val 20
   \<and> sign_x (track_seq buffered_state 5000) A = Null
   \<and> sign_x (track_seq buffered_state 5000) B = Null
   \<and> power_x (track_seq buffered_state 5000) A = Null
   \<and> power_x (track_seq buffered_state 5000) B = Null
   \<and> current_x (track_seq buffered_state 5000) A = Null
   \<and> current_x (track_seq buffered_state 5000) B = Null
   \<and> power_factor_x (track_seq buffered_state 5000) A = Null
   \<and> power_factor_x (track_seq buffered_state 5000) B = Null
   \<and> pub_power_x (track_seq buffered_state 5000) A = Val 7
   \<and> pub_power_x (track_seq buffered_state 5000) B = Val (- 3)
   \<and> power_x (snd (pj1203aFzDatapoints_convert voltage_msg ''t'' no_options (Some buffered_state))) A
       = Null
   \<and> power_x (snd (pj1203aFzDatapoints_convert voltage_msg ''t'' no_options (Some buffered_state))) B
       = Null
   \<and> pub_power_x (snd (pj1203aFzDatapoints_convert voltage_msg ''t'' no_options (Some buffered_state))) A
       = Val 7"
proof -
  have e: "expected_seq buffered_state = 1256"
    by (simp add: expected_seq_def js_bitand_FFFF buffered_state_def pj1203aGetPrivateState_def)
  have l: "last_seq buffered_state = 1000"
    by (simp add: buffered_state_def)
  have g: "gap_detected buffered_state 5000"
    by (simp add: gap_detected_def e l)
  have b: "sign_x buffered_state A = Val 1 \<and> sign_x buffered_state B = Val (- 1)
         \<and> power_x buffered_state A = Val 15 \<and> power_x buffered_state B = Val 20
         \<and> pub_power_x buffered_state A = Val 7 \<and> pub_power_x buffered_state B = Val (- 3)"
    by (simp add: buffered_state_def)
  have d: "tuya_datapoints_convert tuyaDatapoints (data_dpValues voltage_msg) ''t'' no_options
             empty_result (track_seq buffered_state 5000)
           = (empty_result\<lparr>res_named := (res_named empty_result)(''voltage'' := Some (divideBy10 2300))\<rparr>,
              track_seq buffered_state 5000)"
    by (simp add: voltage_msg_def tuyaDatapoints_def)
  have m: "data_seq voltage_msg = 5000"
    by (simp add: voltage_msg_def)
  show ?thesis
    using g b d
      gap_clears_both_channels [OF g, of A voltage_msg "''t''" no_options "Some buffered_state"]
      gap_clears_both_channels [OF g, of B voltage_msg "''t''" no_options "Some buffered_state"]
    by (simp add: m pj1203aGetPrivateState_def)
qed

text \<open>
  C9 as stated fails: on a fresh device the expected sequence number is
  \<open>(-99999 + 256) & 0xFFFF = 31329\<close>, so a first message numbered 0 takes the clearing
  branch.
\<close>

theorem first_message_gap_counterexample:
  "gap_detected (pj1203aGetPrivateState None) 0"
  by (simp add: gap_detected_def expected_seq_init) (simp add: pj1203aGetPrivateState_def)

text \<open>
  C9, amended. The first message of a fresh device, numbered \<open>s\<close> in \<open>[0, 65536)\<close>, is never
  a duplicate, and its tracking changes nothing but \<open>last_seq\<close>, every buffered field being
  empty already. In \<open>PJ-1203A.js\<close> with the default options it never takes the clearing
  branch. In the v5 converter, and in \<open>PJ-1203A.js\<close> with \<open>missing_message_detection\<close> on,
  it takes the clearing branch exactly when \<open>s\<close> is not
  \<open>31329 = (-99999 + 256) & 0xFFFF\<close>. The last two conjuncts say which branch of each
  tracker is the clearing one, in any state.
\<close>

theorem first_message_baseline:
  assumes "0 \<le> s" and "s < 65536"
  shows "spec_classify (last_seq (pj1203aGetPrivateState None))
             (seq_inc (pj1203aGetPrivateState None)) s \<noteq> Duplicate
       \<and> (gap_detected (pj1203aGetPrivateState None) s \<longleftrightarrow> s \<noteq> 31329)
       \<and> track_seq (pj1203aGetPrivateState None) s = (pj1203aGetPrivateState None)\<lparr>last_seq := s\<rparr>
       \<and> spec_classify (last_seq_v1 (PJ1203A_providePrivateState None)) PJ1203A_SEQ_INCREMENT s
           \<noteq> Duplicate
       \<and> \<not> clearing_branch_v1 no_options_v1 (PJ1203A_providePrivateState None) s
       \<and> (clearing_branch_v1 vopts (PJ1203A_providePrivateState None) s
            \<longleftrightarrow> PJ1203A_get_missing_message_detection vopts \<and> s \<noteq> 31329)
       \<and> track_seq_v1 vopts (PJ1203A_providePrivateState None) s
           = (PJ1203A_providePrivateState None)\<lparr>last_seq_v1 := s\<rparr>
       \<and> track_seq p t = (if gap_detected p t then clear_pending p else p)\<lparr>last_seq := t\<rparr>
       \<and> track_seq_v1 vopts q t
           = (if clearing_branch_v1 vopts q t then clear_pending_v1 q else q)\<lparr>last_seq_v1 := t\<rparr>"
proof -
  have n: "s \<noteq> - 99999"
    using assms by simp
  have l: "last_seq (pj1203aGetPrivateState None) = - 99999"
    by (simp add: pj1203aGetPrivateState_def)
  have lv: "last_seq_v1 (PJ1203A_providePrivateState None) = - 99999"
    by (simp add: PJ1203A_providePrivateState_def)
  have a: "spec_classify (last_seq (pj1203aGetPrivateState None))
             (seq_inc (pj1203aGetPrivateState None)) s \<noteq> Duplicate"
    using n by (simp add: spec_classify_def l)
  have b: "gap_detected (pj1203aGetPrivateState None) s \<longleftrightarrow> s \<noteq> 31329"
    using n by (simp add: gap_detected_def expected_seq_init l)
  have c: "track_seq (pj1203aGetPrivateState None) s = (pj1203aGetPrivateState None)\<lparr>last_seq := s\<rparr>"
    by (simp add: track_seq_def clear_pending_def Let_def pj1203aGetPrivateState_def)
  have d: "spec_classify (last_seq_v1 (PJ1203A_providePrivateState None)) PJ1203A_SEQ_INCREMENT s
           \<noteq> Duplicate"
    using n by (simp add: spec_classify_def lv)
  have e: "\<not> clearing_branch_v1 no_options_v1 (PJ1203A_providePrivateState None) s"
    by (simp add: clearing_branch_v1_def PJ1203A_get_missing_message_detection_def
        no_options_v1_def)
  have f: "clearing_branch_v1 vopts (PJ1203A_providePrivateState None) s
            \<longleftrightarrow> PJ1203A_get_missing_message_detection vopts \<and> s \<noteq> 31329"
    using n by (simp add: clearing_branch_v1_def gap_detected_v1_def expected_seq_v1_init lv)
  have g: "track_seq_v1 vopts (PJ1203A_providePrivateState None) s
           = (PJ1203A_providePrivateState None)\<lparr>last_seq_v1 := s\<rparr>"
    by (simp add: track_seq_v1_def clear_pending_v1_def Let_def PJ1203A_providePrivateState_def)
  have h: "track_seq p t = (if gap_detected p t then clear_pending p else p)\<lparr>last_seq := t\<rparr>"
    by (simp add: track_seq_def Let_def)
  have i: "track_seq_v1 vopts q t
           = (if clearing_branch_v1 vopts q t then clear_pending_v1 q else q)\<lparr>last_seq_v1 := t\<rparr>"
    by (simp add: track_seq_v1_def clearing_branch_v1_def Let_def)
  show ?thesis by (intro conjI a b c d e f g h i)
qed

theorem first_message_baseline_witness:
  "(0::int) \<le> 0 \<and> (0::int) < 65536
   \<and> gap_detected (pj1203aGetPrivateState None) 0
   \<and> \<not> gap_detected (pj1203aGetPrivateState None) 31329
   \<and> last_seq (track_seq (pj1203aGetPrivateState None) 0) = 0
   \<and> \<not> clearing_branch_v1 no_options_v1 (PJ1203A_providePrivateState None) 0
   \<and> clearing_branch_v1 detection_options_v1 (PJ1203A_providePrivateState None) 0
   \<and> \<not> clearing_branch_v1 detection_options_v1 (PJ1203A_providePrivateState None) 31329"
proof -
  have o: "PJ1203A_get_missing_message_detection detection_options_v1"
    by (simp add: PJ1203A_get_missing_message_detection_def detection_options_v1_def
        no_options_v1_def)
  show ?thesis
    using o first_message_baseline [of 0 detection_options_v1]
      first_message_baseline [of 31329 detection_options_v1]
    by simp
qed

section \<open>Flushing\<close>

lemma RecomputePowerAb_frame:
  "sign_x (snd (pj1203aRecomputePowerAb r p)) = sign_x p"
  "power_x (snd (pj1203aRecomputePowerAb r p)) = power_x p"
  "current_x (snd (pj1203aRecomputePowerAb r p)) = current_x p"
  "power_factor_x (snd (pj1203aRecomputePowerAb r p)) = power_factor_x p"
  "timestamp_x (snd (pj1203aRecomputePowerAb r p)) = timestamp_x p"
  "zero_power_x (snd (pj1203aRecomputePowerAb r p)) = zero_power_x p"
  "zero_current_x (snd (pj1203aRecomputePowerAb r p)) = zero_current_x p"
  "seq_inc (snd (pj1203aRecomputePowerAb r p)) = seq_inc p"
  by (simp_all add: pj1203aRecomputePowerAb_def Let_def split: option.splits nullable.splits prod.splits)

lemma FlushAll_clears:
  "sign_x (snd (snd (pj1203aFlushAll r x p opts))) x = Null"
  "power_x (snd (snd (pj1203aFlushAll r x p opts))) x = Null"
  "current_x (snd (snd (pj1203aFlushAll r x p opts))) x = Null"
  "power_factor_x (snd (snd (pj1203aFlushAll r x p opts))) x = Null"
  by (simp_all add: pj1203aFlushAll_def Let_def split_beta RecomputePowerAb_frame split: nullable.splits)

lemma FlushAll_incomplete:
  "sign_x p x = Null \<or> power_x p x = Null \<or> current_x p x = Null \<or> power_factor_x p x = Null
   \<Longrightarrow> pj1203aFlushAll r x p opts =
        (False, r, p\<lparr>sign_x := (sign_x p)(x := Null), power_x := (power_x p)(x := Null),
                      current_x := (current_x p)(x := Null),
                      power_factor_x := (power_factor_x p)(x := Null)\<rparr>)"
  by (auto simp add: pj1203aFlushAll_def Let_def split: nullable.splits)

lemma FlushAll_empty:
  assumes "sign_x p x = Null" "power_x p x = Null" "current_x p x = Null" "power_factor_x p x = Null"
  shows "pj1203aFlushAll r x p opts = (False, r, p)"
proof -
  have "p\<lparr>sign_x := (sign_x p)(x := Null), power_x := (power_x p)(x := Null),
           current_x := (current_x p)(x := Null),
           power_factor_x := (power_factor_x p)(x := Null)\<rparr> = p"
    using assms by (simp add: fun_upd_idem)
  then show ?thesis using assms by (simp add: FlushAll_incomplete)
qed

lemma flush_all_v1_clears:
  "energy_flow_v1 (snd (PJ1203A_flush_all r x p opts True)) x = Null"
  "power_v1 (snd (PJ1203A_flush_all r x p opts True)) x = Null"
  "current_v1 (snd (PJ1203A_flush_all r x p opts True)) x = Null"
  "power_factor_v1 (snd (PJ1203A_flush_all r x p opts True)) x = Null"
  by (simp_all add: PJ1203A_flush_all_def PJ1203A_next_seq_def Let_def)

lemma flush_all_v1_empty:
  assumes "energy_flow_v1 p x = Null" "power_v1 p x = Null" "current_v1 p x = Null"
    "power_factor_v1 p x = Null"
  shows "rv_energy_flow (fst (PJ1203A_flush_all r x p opts c)) x = rv_energy_flow r x
           \<or> rv_energy_flow (fst (PJ1203A_flush_all r x p opts c)) x = Some Null"
    and "rv_power (fst (PJ1203A_flush_all r x p opts c)) x = rv_power r x
           \<or> rv_power (fst (PJ1203A_flush_all r x p opts c)) x = Some Null"
    and "rv_current (fst (PJ1203A_flush_all r x p opts c)) x = rv_current r x
           \<or> rv_current (fst (PJ1203A_flush_all r x p opts c)) x = Some Null"
    and "rv_power_factor (fst (PJ1203A_flush_all r x p opts c)) x = rv_power_factor r x
           \<or> rv_power_factor (fst (PJ1203A_flush_all r x p opts c)) x = Some Null"
  using assms by (simp_all add: PJ1203A_flush_all_def PJ1203A_next_seq_def Let_def)

text \<open>
  C3 as stated fails in \<open>PJ-1203A.js\<close>: \<open>PJ1203A_flush_zero\<close> calls \<open>PJ1203A_flush_all\<close> with
  \<open>clear = false\<close>, so after the zero shortcut the snapshot is still buffered (power 0 on
  channel A here) and the next flush emits it again.
\<close>

theorem flush_keeps_zero_snapshot_counterexample:
  "power_v1 (snd (PJ1203A_flush_zero empty_result_v1 A (PJ1203A_providePrivateState None) no_options_v1)) A
     = Val 0
   \<and> rv_power (fst (PJ1203A_flush_all empty_result_v1 A
        (snd (PJ1203A_flush_zero empty_result_v1 A (PJ1203A_providePrivateState None) no_options_v1))
        no_options_v1 True)) A = Some (Val 0)"
  by (simp add: PJ1203A_flush_zero_def PJ1203A_flush_all_def PJ1203A_next_seq_def Let_def
      PJ1203A_providePrivateState_def empty_result_v1_def)

text \<open>
  C3, amended. After \<open>pj1203aFlushAll\<close>, and after \<open>PJ1203A_flush_all\<close> called with
  \<open>clear = true\<close>, the four buffered fields of the channel are empty, whether the set was
  complete or not, and a second flush with no field arriving in between emits no value:
  \<open>pj1203aFlushAll\<close> returns false with the record and the state as they were;
  \<open>PJ1203A_flush_all\<close> leaves each of the four keys of the record as it was or, under a
  nullifying \<open>missing_data_behavior\<close>, writes \<open>null\<close>.
\<close>

theorem flush_consumes_once:
  "sign_x (snd (snd (pj1203aFlushAll r x p opts))) x = Null
   \<and> power_x (snd (snd (pj1203aFlushAll r x p opts))) x = Null
   \<and> current_x (snd (snd (pj1203aFlushAll r x p opts))) x = Null
   \<and> power_factor_x (snd (snd (pj1203aFlushAll r x p opts))) x = Null
   \<and> pj1203aFlushAll r' x (snd (snd (pj1203aFlushAll r x p opts))) opts'
       = (False, r', snd (snd (pj1203aFlushAll r x p opts)))
   \<and> energy_flow_v1 (snd (PJ1203A_flush_all r1 x p1 opts1 True)) x = Null
   \<and> power_v1 (snd (PJ1203A_flush_all r1 x p1 opts1 True)) x = Null
   \<and> current_v1 (snd (PJ1203A_flush_all r1 x p1 opts1 True)) x = Null
   \<and> power_factor_v1 (snd (PJ1203A_flush_all r1 x p1 opts1 True)) x = Null
   \<and> (rv_energy_flow (fst (PJ1203A_flush_all r1' x (snd (PJ1203A_flush_all r1 x p1 opts1 True)) opts1' c)) x
         = rv_energy_flow r1' x
       \<or> rv_energy_flow (fst (PJ1203A_flush_all r1' x (snd (PJ1203A_flush_all r1 x p1 opts1 True)) opts1' c)) x
         = Some Null)
   \<and> (rv_power (fst (PJ1203A_flush_all r1' x (snd (PJ1203A_flush_all r1 x p1 opts1 True)) opts1' c)) x
         = rv_power r1' x
       \<or> rv_power (fst (PJ1203A_flush_all r1' x (snd (PJ1203A_flush_all r1 x p1 opts1 True)) opts1' c)) x
         = Some Null)
   \<and> (rv_current (fst (PJ1203A_flush_all r1' x (snd (PJ1203A_flush_all r1 x p1 opts1 True)) opts1' c)) x
         = rv_current r1' x
       \<or> rv_current (fst (PJ1203A_flush_all r1' x (snd (PJ1203A_flush_all r1 x p1 opts1 True)) opts1' c)) x
         = Some Null)
   \<and> (rv_power_factor (fst (PJ1203A_flush_all r1' x (snd (PJ1203A_flush_all r1 x p1 opts1 True)) opts1' c)) x
         = rv_power_factor r1' x
       \<or> rv_power_factor (fst (PJ1203A_flush_all r1' x (snd (PJ1203A_flush_all r1 x p1 opts1 True)) opts1' c)) x
         = Some Null)"
  by (intro conjI FlushAll_clears FlushAll_empty flush_all_v1_clears flush_all_v1_empty)

section \<open>Sign resolution\<close>

lemma round_even_minus: "round_even (- r) = - round_even r"
proof (cases "r = of_int \<lfloor>r\<rfloor>")
  case True
  then obtain k where k: "r = of_int k" ..
  show ?thesis unfolding k round_even_def Let_def
    by (simp flip: of_int_minus)
next
  case False
  have c: "\<lceil>r\<rceil> = \<lfloor>r\<rfloor> + 1" using False by (simp add: ceiling_altdef)
  have fl: "\<lfloor>- r\<rfloor> = - \<lfloor>r\<rfloor> - 1" using c by (simp add: ceiling_def)
  have d0: "0 < r - of_int \<lfloor>r\<rfloor>" using False of_int_floor_le [of r] by linarith
  have d1: "r - of_int \<lfloor>r\<rfloor> < 1" by linarith
  have ev: "even (- \<lfloor>r\<rfloor> - 1) \<longleftrightarrow> odd \<lfloor>r\<rfloor>" by simp
  show ?thesis
    unfolding round_even_def Let_def fl using d0 d1 ev
    by (auto simp add: algebra_simps)
qed

lemma ilog2_minus: "ilog2 (- x) = ilog2 x"
  by (simp add: ilog2_def)

lemma fl64_minus: "fl64 (- x) = - fl64 x"
  by (simp add: fl64_def ilog2_minus Let_def round_even_minus)

lemma js_mul_sign:
  assumes "s = 1 \<or> s = - 1" "fl64 p = p"
  shows "js_mul s p = s * p"
  using assms by (auto simp add: js_mul_def fl64_minus)

lemma RecomputePowerAb_result:
  "res_power (fst (pj1203aRecomputePowerAb r p)) = res_power r"
  "res_energy_flow (fst (pj1203aRecomputePowerAb r p)) = res_energy_flow r"
  "res_timestamp (fst (pj1203aRecomputePowerAb r p)) = res_timestamp r"
  "res_current (fst (pj1203aRecomputePowerAb r p)) = res_current r"
  "res_power_factor (fst (pj1203aRecomputePowerAb r p)) = res_power_factor r"
  "res_named (fst (pj1203aRecomputePowerAb r p)) = res_named r"
  by (simp_all add: pj1203aRecomputePowerAb_def Let_def split: option.splits nullable.splits prod.splits)

lemma FlushAll_complete:
  assumes "sign_x priv x = Val s" "power_x priv x = Val p" "current_x priv x = Val c"
    "power_factor_x priv x = Val pf"
  shows "fst (pj1203aFlushAll r x priv opts)"
    and "res_power (fst (snd (pj1203aFlushAll r x priv opts))) x
           = Some (Val (if pj1203aGetSignedPower opts x then js_mul s p else p))"
    and "res_energy_flow (fst (snd (pj1203aFlushAll r x priv opts))) x
           = Some (Val (if pj1203aGetSignedPower opts x then ''sign''
                        else if s > 0 then ''consuming'' else ''producing''))"
    and "res_current (fst (snd (pj1203aFlushAll r x priv opts))) x = Some (Val c)"
    and "res_power_factor (fst (snd (pj1203aFlushAll r x priv opts))) x = Some (Val pf)"
    and "res_timestamp (fst (snd (pj1203aFlushAll r x priv opts))) x = Some (timestamp_x priv x)"
  using assms
  by (simp_all add: pj1203aFlushAll_def Let_def split_beta RecomputePowerAb_result)

lemma cycle_examples:
  "res_power (fst (one_cycle no_options A 0 150)) A = Some (Val 15)"
  "res_energy_flow (fst (one_cycle no_options A 0 150)) A = Some (Val ''consuming'')"
  "res_power (fst (one_cycle signed_options A 0 150)) A = Some (Val 15)"
  "res_energy_flow (fst (one_cycle signed_options A 0 150)) A = Some (Val ''sign'')"
  "res_power (fst (one_cycle signed_options A 1 150)) A = Some (Val (- 15))"
  "res_energy_flow (fst (one_cycle signed_options A 1 150)) A = Some (Val ''sign'')"
  "res_power (fst (one_cycle no_options B 0 150)) B = Some (Val 15)"
  "res_energy_flow (fst (one_cycle no_options B 0 150)) B = Some (Val ''consuming'')"
  "res_power (fst (one_cycle signed_options B 0 150)) B = Some (Val 15)"
  "res_energy_flow (fst (one_cycle signed_options B 0 150)) B = Some (Val ''sign'')"
  "res_power (fst (one_cycle signed_options B 1 150)) B = Some (Val (- 15))"
  "res_energy_flow (fst (one_cycle signed_options B 1 150)) B = Some (Val ''sign'')"
  by code_simp+

text \<open>
  C6. A flush of channel \<open>x\<close> whose four fields are buffered returns true and emits, in
  unsigned mode, the power unchanged with the label \<open>consuming\<close> when the sign is positive
  and \<open>producing\<close> otherwise, and in signed mode the binary64 product \<open>sign * power\<close>, which
  for a sign of \<open>+1\<close> or \<open>-1\<close> is the exact product, with the label \<open>sign\<close>. A fresh device
  that receives direction code 0, a current, the raw power 150 and a power factor emits
  power 15 labelled \<open>consuming\<close>; in signed mode it emits 15 labelled \<open>sign\<close>, and \<open>-15\<close>
  labelled \<open>sign\<close> for direction code 1.
\<close>

theorem sign_resolution:
  assumes "sign_x priv x = Val s" "power_x priv x = Val p" "current_x priv x = Val c"
    "power_factor_x priv x = Val pf"
  shows "fst (pj1203aFlushAll r x priv opts)
     \<and> (\<not> pj1203aGetSignedPower opts x \<longrightarrow>
           res_power (fst (snd (pj1203aFlushAll r x priv opts))) x = Some (Val p)
         \<and> res_energy_flow (fst (snd (pj1203aFlushAll r x priv opts))) x
             = Some (Val (if s > 0 then ''consuming'' else ''producing'')))
     \<and> (pj1203aGetSignedPower opts x \<longrightarrow>
           res_power (fst (snd (pj1203aFlushAll r x priv opts))) x = Some (Val (js_mul s p))
         \<and> res_energy_flow (fst (snd (pj1203aFlushAll r x priv opts))) x = Some (Val ''sign''))
     \<and> ((s = 1 \<or> s = - 1) \<and> fl64 p = p \<longrightarrow> js_mul s p = p * s)
     \<and> res_power (fst (one_cycle no_options x 0 150)) x = Some (Val 15)
     \<and> res_energy_flow (fst (one_cycle no_options x 0 150)) x = Some (Val ''consuming'')
     \<and> res_power (fst (one_cycle signed_options x 0 150)) x = Some (Val 15)
     \<and> res_energy_flow (fst (one_cycle signed_options x 0 150)) x = Some (Val ''sign'')
     \<and> res_power (fst (one_cycle signed_options x 1 150)) x = Some (Val (- 15))
     \<and> res_energy_flow (fst (one_cycle signed_options x 1 150)) x = Some (Val ''sign'')"
proof -
  note f = FlushAll_complete [OF assms, of r opts]
  have m: "(s = 1 \<or> s = - 1) \<and> fl64 p = p \<longrightarrow> js_mul s p = p * s"
    using js_mul_sign [of s p] by (simp add: mult.commute)
  have e: "res_power (fst (one_cycle no_options x 0 150)) x = Some (Val 15)
     \<and> res_energy_flow (fst (one_cycle no_options x 0 150)) x = Some (Val ''consuming'')
     \<and> res_power (fst (one_cycle signed_options x 0 150)) x = Some (Val 15)
     \<and> res_energy_flow (fst (one_cycle signed_options x 0 150)) x = Some (Val ''sign'')
     \<and> res_power (fst (one_cycle signed_options x 1 150)) x = Some (Val (- 15))
     \<and> res_energy_flow (fst (one_cycle signed_options x 1 150)) x = Some (Val ''sign'')"
    by (cases x) (simp_all add: cycle_examples)
  show ?thesis using f m e by simp
qed

theorem sign_resolution_witness:
  "sign_x ((pj1203aGetPrivateState None)\<lparr>sign_x := (\<lambda>_. Val (- 1)), power_x := (\<lambda>_. Val 15),
       current_x := (\<lambda>_. Val 1), power_factor_x := (\<lambda>_. Val 95)\<rparr>) A = Val (- 1)
   \<and> res_power (fst (snd (pj1203aFlushAll empty_result A
        ((pj1203aGetPrivateState None)\<lparr>sign_x := (\<lambda>_. Val (- 1)), power_x := (\<lambda>_. Val 15),
           current_x := (\<lambda>_. Val 1), power_factor_x := (\<lambda>_. Val 95)\<rparr>)
        signed_options))) A = Some (Val (- 15))
   \<and> res_energy_flow (fst (snd (pj1203aFlushAll empty_result A
        ((pj1203aGetPrivateState None)\<lparr>sign_x := (\<lambda>_. Val (- 1)), power_x := (\<lambda>_. Val 15),
           current_x := (\<lambda>_. Val 1), power_factor_x := (\<lambda>_. Val 95)\<rparr>)
        no_options))) A = Some (Val ''producing'')"
proof -
  let ?p = "(pj1203aGetPrivateState None)\<lparr>sign_x := (\<lambda>_. Val (- 1)), power_x := (\<lambda>_. Val 15),
       current_x := (\<lambda>_. Val 1), power_factor_x := (\<lambda>_. Val 95)\<rparr>"
  have h: "sign_x ?p A = Val (- 1)" "power_x ?p A = Val 15" "current_x ?p A = Val 1"
    "power_factor_x ?p A = Val 95"
    by simp_all
  have o: "pj1203aGetSignedPower signed_options A" "\<not> pj1203aGetSignedPower no_options A"
    by (simp_all add: pj1203aGetSignedPower_def signed_options_def no_options_def)
  have n: "js_mul (- 1) 15 = - 15" by code_simp
  show ?thesis
    using h o n sign_resolution [OF h, of empty_result signed_options]
      sign_resolution [OF h, of empty_result no_options]
    by simp
qed

section \<open>Suppression of a single zero\<close>

lemma FlushNull_eq:
  "pj1203aFlushNull r x p opts now =
     (r, p\<lparr>sign_x := (sign_x p)(x := Null), power_x := (power_x p)(x := Null),
            current_x := (current_x p)(x := Null), power_factor_x := (power_factor_x p)(x := Null),
            timestamp_x := (timestamp_x p)(x := Val now)\<rparr>)"
  by (simp add: pj1203aFlushNull_def Let_def FlushAll_empty)

lemma power_from_first_zero:
  assumes "pj1203aGetSingleZeroRemove opts" "\<not> truthy (zero_power_x (pj1203aGetPrivateState st) x)"
  shows "power_from x 0 now st opts =
     (empty_result,
      (pj1203aGetPrivateState st)\<lparr>sign_x := (sign_x (pj1203aGetPrivateState st))(x := Null),
         power_x := (power_x (pj1203aGetPrivateState st))(x := Null),
         current_x := (current_x (pj1203aGetPrivateState st))(x := Null),
         power_factor_x := (power_factor_x (pj1203aGetPrivateState st))(x := Null),
         timestamp_x := (timestamp_x (pj1203aGetPrivateState st))(x := Val now),
         zero_power_x := (zero_power_x (pj1203aGetPrivateState st))(x := Val True)\<rparr>)"
  using assms by (simp add: power_from_def Let_def FlushNull_eq)

lemma current_from_first_zero:
  assumes "pj1203aGetSingleZeroRemove opts" "\<not> truthy (zero_current_x (pj1203aGetPrivateState st) x)"
  shows "current_from x 0 now st opts =
     (empty_result,
      (pj1203aGetPrivateState st)\<lparr>sign_x := (sign_x (pj1203aGetPrivateState st))(x := Null),
         power_x := (power_x (pj1203aGetPrivateState st))(x := Null),
         current_x := (current_x (pj1203aGetPrivateState st))(x := Null),
         power_factor_x := (power_factor_x (pj1203aGetPrivateState st))(x := Null),
         timestamp_x := (timestamp_x (pj1203aGetPrivateState st))(x := Val now),
         zero_current_x := (zero_current_x (pj1203aGetPrivateState st))(x := Val True)\<rparr>)"
  using assms by (simp add: current_from_def Let_def FlushNull_eq)

lemma power_from_zero_flag:
  "zero_power_x (snd (power_from x v now st opts)) x = Val (v = 0)"
  by (simp add: power_from_def Let_def split_beta)

lemma current_from_zero_flag:
  "zero_current_x (snd (current_from x v now st opts)) x = Val (v = 0)"
  by (simp add: current_from_def Let_def split_beta)

lemma power_from_repeated_zero:
  assumes "truthy (zero_power_x (pj1203aGetPrivateState st) x)"
  shows "res_power (fst (power_from x 0 now st opts)) x = Some (Val 0)
       \<and> res_current (fst (power_from x 0 now st opts)) x = Some (Val 0)
       \<and> res_power_factor (fst (power_from x 0 now st opts)) x = Some (Val 100)
       \<and> res_energy_flow (fst (power_from x 0 now st opts)) x
           = Some (Val (if pj1203aGetSignedPower opts x then ''sign'' else ''consuming''))"
proof -
  let ?p = "(pj1203aGetPrivateState st)\<lparr>power_x := (power_x (pj1203aGetPrivateState st))(x := Val (js_div 0 10)),
         timestamp_x := (timestamp_x (pj1203aGetPrivateState st))(x := Val now)\<rparr>"
  obtain r p where a: "pj1203aFlushZero empty_result x ?p opts now = (r, p)"
    by (cases "pj1203aFlushZero empty_result x ?p opts now") blast
  have "fst (power_from x 0 now st opts) = r"
    using assms a by (simp add: power_from_def Let_def)
  then show ?thesis using flush_zero_emits [OF a] by simp
qed

lemma current_from_repeated_zero:
  assumes "truthy (zero_current_x (pj1203aGetPrivateState st) x)"
  shows "res_power (fst (current_from x 0 now st opts)) x = Some (Val 0)
       \<and> res_current (fst (current_from x 0 now st opts)) x = Some (Val 0)
       \<and> res_power_factor (fst (current_from x 0 now st opts)) x = Some (Val 100)
       \<and> res_energy_flow (fst (current_from x 0 now st opts)) x
           = Some (Val (if pj1203aGetSignedPower opts x then ''sign'' else ''consuming''))"
proof -
  let ?p = "(pj1203aGetPrivateState st)\<lparr>current_x := (current_x (pj1203aGetPrivateState st))(x := Val (js_div 0 1000))\<rparr>"
  obtain r p where a: "pj1203aFlushZero empty_result x ?p opts now = (r, p)"
    by (cases "pj1203aFlushZero empty_result x ?p opts now") blast
  have "fst (current_from x 0 now st opts) = r"
    using assms a by (simp add: current_from_def Let_def)
  then show ?thesis using flush_zero_emits [OF a] by simp
qed

text \<open>
  C7. The code does not do what the claim says, and what the comment above
  \<open>pj1203aFlushNull\<close> says (the values are flushed as \<open>null\<close>). With \<open>single_zero_remove\<close> on,
  channel A reports a raw power of 150 and then of 0. For that first zero the four
  buffered fields are set to \<open>null\<close> and the timestamp to the time of the call, but
  \<open>pj1203aFlushAll\<close> publishes a complete set only: the record is empty, no key of the
  channel is in it, \<open>null\<close> or not. The zero that follows emits the zero snapshot, and a
  value other than 0 resets the flag, as the claim says.
\<close>

theorem first_zero_emits_no_record:
  "zero_power_x (snd (power_from A 150 ''s'' None zero_remove_options)) A = Val False
   \<and> fst (power_from A 0 ''t'' (Some (snd (power_from A 150 ''s'' None zero_remove_options)))
          zero_remove_options) = empty_result
   \<and> res_power empty_result A = None \<and> res_current empty_result A = None
   \<and> res_power_factor empty_result A = None \<and> res_energy_flow empty_result A = None
   \<and> res_timestamp empty_result A = None
   \<and> power_x (snd (power_from A 0 ''t'' (Some (snd (power_from A 150 ''s'' None zero_remove_options)))
          zero_remove_options)) A = Null
   \<and> timestamp_x (snd (power_from A 0 ''t'' (Some (snd (power_from A 150 ''s'' None zero_remove_options)))
          zero_remove_options)) A = Val ''t''
   \<and> fst (current_from A 0 ''t'' (Some (snd (current_from A 1000 ''s'' None zero_remove_options)))
          zero_remove_options) = empty_result
   \<and> res_power (fst (power_from A 0 ''u''
        (Some (snd (power_from A 0 ''t'' (Some (snd (power_from A 150 ''s'' None zero_remove_options)))
           zero_remove_options))) zero_remove_options)) A = Some (Val 0)
   \<and> res_power_factor (fst (power_from A 0 ''u''
        (Some (snd (power_from A 0 ''t'' (Some (snd (power_from A 150 ''s'' None zero_remove_options)))
           zero_remove_options))) zero_remove_options)) A = Some (Val 100)"
proof -
  let ?p = "snd (power_from A 150 ''s'' None zero_remove_options)"
  let ?c = "snd (current_from A 1000 ''s'' None zero_remove_options)"
  let ?q = "snd (power_from A 0 ''t'' (Some ?p) zero_remove_options)"
  have a: "pj1203aGetSingleZeroRemove zero_remove_options"
    by (simp add: pj1203aGetSingleZeroRemove_def zero_remove_options_def no_options_def)
  have f: "zero_power_x ?p A = Val False"
    by (simp add: power_from_zero_flag)
  have b: "\<not> truthy (zero_power_x (pj1203aGetPrivateState (Some ?p)) A)"
    by (simp add: pj1203aGetPrivateState_def power_from_zero_flag)
  have c: "\<not> truthy (zero_current_x (pj1203aGetPrivateState (Some ?c)) A)"
    by (simp add: pj1203aGetPrivateState_def current_from_zero_flag)
  have t: "truthy (zero_power_x (pj1203aGetPrivateState (Some ?q)) A)"
    by (simp add: pj1203aGetPrivateState_def power_from_zero_flag)
  have e: "res_power empty_result A = None \<and> res_current empty_result A = None
         \<and> res_power_factor empty_result A = None \<and> res_energy_flow empty_result A = None
         \<and> res_timestamp empty_result A = None"
    by (simp add: empty_result_def)
  show ?thesis
    using f e power_from_repeated_zero [OF t, of "''u''" zero_remove_options]
    by (simp add: power_from_first_zero [OF a b] current_from_first_zero [OF a c])
qed

section \<open>Direction codes outside 0 and 1\<close>





section \<open>Rounding to binary64\<close>

lemma powi_pos: "(0::rat) < 2 powi k"
  by (simp add: zero_less_power_int)

lemma powi_add: "(2::rat) powi (a + b) = 2 powi a * 2 powi b"
  by (simp add: power_int_add)

lemma powi_diff: "(2::rat) powi (a - b) = 2 powi a / 2 powi b"
  by (simp add: power_int_diff)

lemma powi_mono: "a \<le> b \<Longrightarrow> (2::rat) powi a \<le> 2 powi b"
  by (rule power_int_increasing) simp_all

lemma powi_strict_mono: "a < b \<Longrightarrow> (2::rat) powi a < 2 powi b"
  by (rule power_int_strict_increasing) simp_all

lemma bitlen_powi_bounds:
  assumes "0 < p"
  shows "(2::rat) powi (bitlen p - 1) \<le> of_int p" and "of_int p < (2::rat) powi (bitlen p)"
proof -
  have b1: "1 \<le> bitlen p" using assms bitlen_eq_zero_iff [of p] bitlen_nonneg [of p] by linarith
  have "(2::int) ^ nat (bitlen p - 1) \<le> p" and "p < (2::int) ^ nat (bitlen p)"
    using bitlen_bounds [OF assms] by simp_all
  then have "(of_int ((2::int) ^ nat (bitlen p - 1))::rat) \<le> of_int p"
    and "(of_int p::rat) < of_int ((2::int) ^ nat (bitlen p))"
    by (simp_all only: of_int_le_iff of_int_less_iff)
  then show "(2::rat) powi (bitlen p - 1) \<le> of_int p" and "of_int p < (2::rat) powi (bitlen p)"
    using b1 by (simp_all add: power_int_def)
qed

lemma ilog2_bounds:
  assumes "x \<noteq> 0"
  shows "2 powi (ilog2 x) \<le> \<bar>x\<bar>" and "\<bar>x\<bar> < 2 powi (ilog2 x + 1)"
proof -
  obtain p q where pq: "quotient_of \<bar>x\<bar> = (p, q)" by (cases "quotient_of \<bar>x\<bar>")
  have q: "0 < q" using quotient_of_denom_pos [OF pq] .
  have x: "\<bar>x\<bar> = of_int p / of_int q" using quotient_of_div [OF pq] .
  have "0 < \<bar>x\<bar>" using assms by simp
  then have p: "0 < p" using x q by (simp add: zero_less_divide_iff)
  let ?k = "bitlen p - bitlen q"
  have qr: "(0::rat) < of_int q" using q by simp
  have up: "\<bar>x\<bar> < 2 powi (?k + 1)"
  proof -
    have "of_int p < (2::rat) powi (bitlen p)" using bitlen_powi_bounds [OF p] by simp
    also have "\<dots> = 2 powi (?k + 1) * 2 powi (bitlen q - 1)"
      by (simp flip: powi_add)
    also have "\<dots> \<le> 2 powi (?k + 1) * of_int q"
      using bitlen_powi_bounds(1) [OF q] powi_pos [of "?k + 1"]
      by (simp add: mult_left_mono)
    finally show ?thesis using qr by (simp add: x pos_divide_less_eq)
  qed
  have lo: "2 powi (?k - 1) \<le> \<bar>x\<bar>"
  proof -
    have "2 powi (?k - 1) * of_int q \<le> 2 powi (?k - 1) * (2::rat) powi (bitlen q)"
      using bitlen_powi_bounds(2) [OF q] powi_pos [of "?k - 1"]
      by (simp add: mult_left_mono)
    also have "\<dots> = 2 powi (bitlen p - 1)"
      by (simp flip: powi_add)
    also have "\<dots> \<le> of_int p" using bitlen_powi_bounds(1) [OF p] .
    finally show ?thesis using qr by (simp add: x pos_le_divide_eq)
  qed
  have il: "ilog2 x = (if 2 powi ?k \<le> \<bar>x\<bar> then ?k else ?k - 1)"
    by (simp add: ilog2_def pq Let_def)
  show "2 powi (ilog2 x) \<le> \<bar>x\<bar>" using lo by (simp add: il)
  show "\<bar>x\<bar> < 2 powi (ilog2 x + 1)" using up by (auto simp add: il not_le)
qed

lemma ilog2_unique:
  assumes "2 powi j \<le> \<bar>x\<bar>" "\<bar>x\<bar> < 2 powi (j + 1)"
  shows "ilog2 x = j"
proof -
  have "0 < \<bar>x\<bar>" using assms(1) powi_pos [of j] by linarith
  then have x0: "x \<noteq> 0" by simp
  note b = ilog2_bounds [OF x0]
  have "2 powi j < (2::rat) powi (ilog2 x + 1)" using assms(1) b(2) by linarith
  then have 1: "j < ilog2 x + 1"
    using powi_mono [of "ilog2 x + 1" j] by (cases "j < ilog2 x + 1") auto
  have "2 powi (ilog2 x) < (2::rat) powi (j + 1)" using assms(2) b(1) by linarith
  then have 2: "ilog2 x < j + 1"
    using powi_mono [of "j + 1" "ilog2 x"] by (cases "ilog2 x < j + 1") auto
  show ?thesis using 1 2 by linarith
qed

lemma round_even_error: "\<bar>of_int (round_even y) - y\<bar> \<le> 1/2"
proof -
  have "of_int \<lfloor>y\<rfloor> \<le> y" "y < of_int \<lfloor>y\<rfloor> + 1" by linarith+
  then show ?thesis
    unfolding round_even_def Let_def by (auto simp add: abs_le_iff)
qed

lemma round_even_of_int: "round_even (of_int k) = k"
  by (simp add: round_even_def)

lemma fl64_unfold:
  assumes "x \<noteq> 0"
  shows "fl64 x = of_int (round_even (x / 2 powi (max (ilog2 x - 52) (- 1074))))
                    * 2 powi (max (ilog2 x - 52) (- 1074))"
  using assms by (simp add: fl64_def Let_def)

lemma fl64_half_ulp:
  assumes "x \<noteq> 0"
  shows "\<bar>fl64 x - x\<bar> \<le> 2 powi (max (ilog2 x - 52) (- 1074)) / 2"
proof -
  define s :: rat where "s = 2 powi (max (ilog2 x - 52) (- 1074))"
  have s: "0 < s" by (simp add: s_def powi_pos)
  have "fl64 x - x = (of_int (round_even (x / s)) - x / s) * s"
    using s by (simp add: fl64_unfold [OF assms] s_def [symmetric] field_simps)
  then have "\<bar>fl64 x - x\<bar> = \<bar>of_int (round_even (x / s)) - x / s\<bar> * s"
    using s by (simp add: abs_mult)
  also have "\<dots> \<le> (1/2) * s"
    using round_even_error [of "x / s"] s by (intro mult_right_mono) simp_all
  finally show ?thesis by (simp add: s_def)
qed

lemma powi_m53: "(2::rat) powi (- 53) = 1 / 2 ^ 53"
  by (simp add: power_int_minus_divide)

lemma powi_half: "(2::rat) powi k / 2 = 2 powi (k - 1)"
proof -
  have "(2::rat) powi k / 2 = 2 powi k / 2 powi 1" by simp
  also have "\<dots> = 2 powi (k - 1)" by (simp only: powi_diff)
  finally show ?thesis .
qed

lemma fl64_error: "\<bar>fl64 x - x\<bar> \<le> (\<bar>x\<bar> + 1) / 2 ^ 53"
proof (cases "x = 0")
  case True
  then show ?thesis by (simp add: fl64_0)
next
  case False
  note h = fl64_half_ulp [OF False]
  have le: "(2::rat) powi (- 53) * y \<le> (y + 1) / 2 ^ 53" if "0 \<le> y" for y
    using that unfolding powi_m53 by (simp add: field_simps)
  show ?thesis
  proof (cases "- 1074 \<le> ilog2 x - 52")
    case True
    then have m: "max (ilog2 x - 52) (- 1074) = ilog2 x - 52" by simp
    have "(2::rat) powi (ilog2 x - 52) / 2 = 2 powi (- 53 + ilog2 x)"
      unfolding powi_half by (rule arg_cong [where f = "\<lambda>k. 2 powi k"]) simp
    also have "\<dots> = 2 powi (- 53) * 2 powi (ilog2 x)" by (simp only: powi_add)
    also have "\<dots> \<le> 2 powi (- 53) * \<bar>x\<bar>"
      using ilog2_bounds(1) [OF False] powi_pos [of "- 53"] by (intro mult_left_mono) simp_all
    also have "\<dots> \<le> (\<bar>x\<bar> + 1) / 2 ^ 53" by (rule le) simp
    finally show ?thesis using h unfolding m by linarith
  next
    case False
    then have m: "max (ilog2 x - 52) (- 1074) = - 1074" by simp
    have "(2::rat) powi (- 1074) / 2 = 2 powi (- 1075)"
      unfolding powi_half by (rule arg_cong [where f = "\<lambda>k. 2 powi k"]) simp
    also have "\<dots> \<le> 2 powi (- 53)" by (rule powi_mono) simp
    also have "\<dots> \<le> 2 powi (- 53) * (\<bar>x\<bar> + 1)"
      using powi_pos [of "- 53"] by (simp add: mult_le_cancel_left1)
    also have "\<dots> \<le> (\<bar>x\<bar> + 1) / 2 ^ 53" unfolding powi_m53 by simp
    finally show ?thesis using h unfolding m by linarith
  qed
qed

lemma round_even_cases: "round_even y = \<lfloor>y\<rfloor> \<or> round_even y = \<lfloor>y\<rfloor> + 1"
  by (simp add: round_even_def Let_def)

lemma round_even_bound:
  assumes "\<bar>y\<bar> < of_int n"
  shows "\<bar>round_even y\<bar> \<le> n"
proof -
  have "y < of_int n" "- of_int n < y" using assms by (simp_all add: abs_less_iff)
  then have "\<lfloor>y\<rfloor> < n" "- n \<le> \<lfloor>y\<rfloor>" by (simp_all add: floor_less_iff le_floor_iff)
  then show ?thesis using round_even_cases [of y] by auto
qed

lemma fl64_representable:
  "\<exists>m e. fl64 x = of_int m * 2 powi e \<and> \<bar>m\<bar> \<le> 2 ^ 53 \<and> - 1074 \<le> e"
proof (cases "x = 0")
  case True
  have "(0::rat) = of_int 0 * 2 powi 0" by simp
  then show ?thesis unfolding True fl64_0
    by (intro exI [of _ 0] exI [of _ "0::int"]) simp
next
  case False
  define e where "e = max (ilog2 x - 52) (- 1074)"
  have e: "ilog2 x - 52 \<le> e" "- 1074 \<le> e" by (simp_all add: e_def)
  have "\<bar>x\<bar> < 2 powi (ilog2 x + 1)" using ilog2_bounds(2) [OF False] .
  also have "\<dots> \<le> 2 powi (53 + e)" using e(1) by (intro powi_mono) simp
  also have "\<dots> = 2 powi 53 * 2 powi e" by (simp only: powi_add)
  finally have "\<bar>x\<bar> / 2 powi e < 2 powi 53"
    using powi_pos [of e] by (simp add: pos_divide_less_eq)
  then have "\<bar>x / 2 powi e\<bar> < of_int (2 ^ 53)"
    using powi_pos [of e] by (simp add: abs_divide)
  then have "\<bar>round_even (x / 2 powi e)\<bar> \<le> 2 ^ 53" by (rule round_even_bound)
  then show ?thesis
    unfolding fl64_unfold [OF False] e_def [symmetric] using e(2) by blast
qed

lemma ilog2_scale:
  assumes "x \<noteq> 0"
  shows "ilog2 (x * 2 powi e) = ilog2 x + e"
proof (rule ilog2_unique)
  have s: "\<bar>x * 2 powi e\<bar> = \<bar>x\<bar> * 2 powi e"
    using powi_pos [of e] by (simp add: abs_mult)
  have "2 powi (ilog2 x + e) = (2::rat) powi (ilog2 x) * 2 powi e" by (simp only: powi_add)
  also have "\<dots> \<le> \<bar>x\<bar> * 2 powi e"
    using ilog2_bounds(1) [OF assms] powi_pos [of e] by (intro mult_right_mono) simp_all
  finally show "2 powi (ilog2 x + e) \<le> \<bar>x * 2 powi e\<bar>" unfolding s .
  have "\<bar>x\<bar> * 2 powi e < 2 powi (ilog2 x + 1) * 2 powi e"
    using ilog2_bounds(2) [OF assms] powi_pos [of e] by (intro mult_strict_right_mono) simp_all
  also have "\<dots> = 2 powi (ilog2 x + e + 1)"
    unfolding powi_add [symmetric] by (rule arg_cong [where f = "\<lambda>k. 2 powi k"]) simp
  finally show "\<bar>x * 2 powi e\<bar> < 2 powi (ilog2 x + e + 1)" unfolding s .
qed

lemma ilog2_int_le_53:
  assumes "m \<noteq> 0" "\<bar>m\<bar> \<le> 2 ^ 53"
  shows "0 \<le> ilog2 (of_int m)" and "ilog2 (of_int m) \<le> 53"
    and "ilog2 (of_int m) = 53 \<Longrightarrow> \<bar>m\<bar> = 2 ^ 53"
proof -
  have m0: "(of_int m :: rat) \<noteq> 0" using assms(1) by simp
  note b = ilog2_bounds [OF m0]
  have m1: "(1::rat) \<le> \<bar>of_int m\<bar>" using assms(1) by (simp flip: of_int_abs)
  have m2: "\<bar>of_int m :: rat\<bar> \<le> 2 powi 53" using assms(2) by (simp flip: of_int_abs)
  have "(2::rat) powi 0 < 2 powi (ilog2 (of_int m) + 1)" using m1 b(2) by simp
  then show "0 \<le> ilog2 (of_int m)"
    using powi_mono [of "ilog2 (of_int m) + 1" 0] by (cases "0 \<le> ilog2 (of_int m)") auto
  have "(2::rat) powi (ilog2 (of_int m)) \<le> 2 powi 53" using m2 b(1) by linarith
  then show "ilog2 (of_int m) \<le> 53"
    using powi_strict_mono [of 53 "ilog2 (of_int m)"] by (cases "ilog2 (of_int m) \<le> 53") auto
  assume "ilog2 (of_int m) = 53"
  then have "(2::rat) powi 53 \<le> \<bar>of_int m\<bar>" using b(1) by simp
  then have "\<bar>of_int m :: rat\<bar> = of_int (2 ^ 53)" using m2 by simp
  then show "\<bar>m\<bar> = 2 ^ 53" by (simp only: of_int_eq_iff flip: of_int_abs)
qed

lemma fl64_fixed:
  assumes "\<bar>m\<bar> \<le> 2 ^ 53" "- 1074 \<le> e"
  shows "fl64 (of_int m * 2 powi e) = of_int m * 2 powi e"
proof (cases "m = 0")
  case True
  then show ?thesis by (simp add: fl64_0)
next
  case False
  define y :: rat where "y = of_int m * 2 powi e"
  have m0: "(of_int m :: rat) \<noteq> 0" using False by simp
  have y0: "y \<noteq> 0" using m0 powi_pos [of e] by (simp add: y_def)
  define j where "j = ilog2 (of_int m)"
  have il: "ilog2 y = j + e" unfolding y_def j_def by (rule ilog2_scale [OF m0])
  note jb = ilog2_int_le_53 [OF False assms(1), folded j_def]
  define e' where "e' = max (ilog2 y - 52) (- 1074)"
  have f: "fl64 y = of_int (round_even (y / 2 powi e')) * 2 powi e'"
    unfolding e'_def by (rule fl64_unfold [OF y0])
  show ?thesis
  proof (cases "j \<le> 52")
    case True
    then have le: "e' \<le> e" using assms(2) by (simp add: e'_def il)
    define d where "d = nat (e - e')"
    have d: "e - e' = int d" using le by (simp add: d_def)
    have "y / 2 powi e' = of_int m * 2 powi (e - e')"
      by (simp add: y_def powi_diff)
    also have "\<dots> = of_int (m * 2 ^ d)" unfolding d by simp
    finally have q: "y / 2 powi e' = of_int (m * 2 ^ d)" .
    have "fl64 y = of_int (m * 2 ^ d) * 2 powi e'"
      unfolding f q round_even_of_int ..
    also have "\<dots> = y / 2 powi e' * 2 powi e'" unfolding q ..
    also have "\<dots> = y" using powi_pos [of e'] by simp
    finally show ?thesis unfolding y_def .
  next
    case False
    then have j: "j = 53" using jb(2) by linarith
    have ma: "\<bar>m\<bar> = 2 ^ 53" using jb(3) [OF j] .
    have ev: "m = 2 * (m div 2)"
    proof -
      have "even \<bar>m\<bar>" unfolding ma by simp
      then have "even m" by simp
      then show ?thesis by simp
    qed
    have e': "e' = e + 1" using assms(2) by (simp add: e'_def il j)
    have "2 powi e' = (2::rat) powi e * 2" unfolding e' by (simp add: powi_add)
    then have q: "y / 2 powi e' = of_int m / 2"
      using powi_pos [of e] by (simp add: y_def)
    also have "\<dots> = of_int (m div 2)"
      by (subst ev) simp
    finally have q': "y / 2 powi e' = of_int (m div 2)" .
    have "fl64 y = of_int (m div 2) * 2 powi e'"
      unfolding f q' round_even_of_int ..
    also have "\<dots> = y / 2 powi e' * 2 powi e'" unfolding q' ..
    also have "\<dots> = y" using powi_pos [of e'] by simp
    finally show ?thesis unfolding y_def .
  qed
qed

lemma fl64_idem: "fl64 (fl64 x) = fl64 x"
proof -
  obtain m e where "fl64 x = of_int m * 2 powi e" "\<bar>m\<bar> \<le> 2 ^ 53" "- 1074 \<le> e"
    using fl64_representable [of x] by blast
  then show ?thesis using fl64_fixed [of m e] by simp
qed

lemma fl64_of_int:
  assumes "\<bar>k\<bar> \<le> 2 ^ 53"
  shows "fl64 (of_int k) = of_int k"
  using fl64_fixed [OF assms, of 0] by simp

lemma fl64_error_bound:
  assumes "\<bar>x\<bar> \<le> bnd"
  shows "\<bar>fl64 x - x\<bar> \<le> (bnd + 1) / 2 ^ 53"
proof -
  have "(\<bar>x\<bar> + 1) / 2 ^ 53 \<le> (bnd + 1) / 2 ^ 53"
    using assms by (intro divide_right_mono) simp_all
  then show ?thesis using fl64_error [of x] by linarith
qed

lemma scaled_tenth:
  assumes "\<bar>k\<bar> \<le> 2 ^ 32"
  shows "\<bar>js_mul 10 (fl64 (of_int k / 10)) - of_int k\<bar> \<le> 1 / 524288"
proof -
  define K :: rat where "K = of_int k"
  define a where "a = fl64 (K / 10)"
  define t where "t = fl64 (10 * a)"
  have "\<bar>of_int k :: rat\<bar> \<le> of_int (2 ^ 32)"
    using assms by (simp only: of_int_le_iff flip: of_int_abs)
  then have K: "K \<le> 4294967296" "- K \<le> 4294967296" by (simp_all add: K_def abs_le_iff)
  then have "\<bar>K / 10\<bar> \<le> 429496730" unfolding abs_le_iff by simp
  from fl64_error_bound [OF this] have "\<bar>a - K / 10\<bar> \<le> 429496731 / 9007199254740992"
    by (simp add: a_def)
  then have A: "a - K / 10 \<le> 1 / 16777216" "- (a - K / 10) \<le> 1 / 16777216"
    unfolding abs_le_iff by linarith+
  have "\<bar>10 * a\<bar> \<le> 4294967297" unfolding abs_le_iff using A K by linarith
  from fl64_error_bound [OF this] have "\<bar>t - 10 * a\<bar> \<le> 4294967298 / 9007199254740992"
    by (simp add: t_def)
  then have "t - 10 * a \<le> 1 / 1048576" "- (t - 10 * a) \<le> 1 / 1048576"
    unfolding abs_le_iff by linarith+
  then have "\<bar>t - K\<bar> \<le> 1 / 524288" unfolding abs_le_iff using A by linarith
  then show ?thesis by (simp add: js_mul_def a_def K_def t_def)
qed

lemma tenths_sum:
  assumes "\<bar>ka\<bar> \<le> 2 ^ 32" "\<bar>kb\<bar> \<le> 2 ^ 32"
  shows "js_div (Math_round (js_add (js_mul 10 (fl64 (of_int ka / 10)))
                                    (js_mul 10 (fl64 (of_int kb / 10))))) 10
         = fl64 (of_int (ka + kb) / 10)"
proof -
  define t where "t = js_mul 10 (fl64 (of_int ka / 10))"
  define u where "u = js_mul 10 (fl64 (of_int kb / 10))"
  define s where "s = fl64 (t + u)"
  define K :: rat where "K = of_int ka"
  define L :: rat where "L = of_int kb"
  have "\<bar>of_int ka :: rat\<bar> \<le> of_int (2 ^ 32)" "\<bar>of_int kb :: rat\<bar> \<le> of_int (2 ^ 32)"
    using assms by (simp_all only: of_int_le_iff flip: of_int_abs)
  then have K: "K \<le> 4294967296" "- K \<le> 4294967296"
    and L: "L \<le> 4294967296" "- L \<le> 4294967296"
    by (simp_all add: K_def L_def abs_le_iff)
  have "\<bar>t - K\<bar> \<le> 1 / 524288" unfolding t_def K_def by (rule scaled_tenth [OF assms(1)])
  then have T: "t - K \<le> 1 / 524288" "- (t - K) \<le> 1 / 524288"
    unfolding abs_le_iff by simp_all
  have "\<bar>u - L\<bar> \<le> 1 / 524288" unfolding u_def L_def by (rule scaled_tenth [OF assms(2)])
  then have U: "u - L \<le> 1 / 524288" "- (u - L) \<le> 1 / 524288"
    unfolding abs_le_iff by simp_all
  have "\<bar>t + u\<bar> \<le> 8589934593" unfolding abs_le_iff using T U K L by linarith
  from fl64_error_bound [OF this] have "\<bar>s - (t + u)\<bar> \<le> 8589934594 / 9007199254740992"
    by (simp add: s_def)
  then have S: "s - (t + u) \<le> 1 / 524288" "- (s - (t + u)) \<le> 1 / 524288"
    unfolding abs_le_iff by linarith+
  have "\<lfloor>s + 1 / 2\<rfloor> = ka + kb"
  proof (rule floor_unique)
    have "K + L \<le> s + 1 / 2" using S T U by linarith
    then show "of_int (ka + kb) \<le> s + 1 / 2" by (simp add: K_def L_def)
    have "s + 1 / 2 < K + L + 1" using S T U by linarith
    then show "s + 1 / 2 < of_int (ka + kb) + 1" by (simp add: K_def L_def)
  qed
  then show ?thesis by (simp add: Math_round_def js_div_def js_add_def t_def u_def s_def)
qed

lemma tenths_example:
  "js_div (Math_round (js_add (js_mul 10 (fl64 (798 / 10))) (js_mul 10 (fl64 (- 371 / 10))))) 10
     = fl64 (427 / 10)"
  "js_add (fl64 (798 / 10)) (fl64 (- 371 / 10)) \<noteq> fl64 (427 / 10)"
  by code_simp+

section \<open>The combined power over a run\<close>

lemma Recompute_single:
  assumes "res_power r = (\<lambda>_. None)(x := Some w)"
  shows "pub_power_x (snd (pj1203aRecomputePowerAb r p)) =
           (pub_power_x p)(x := Val (js_mul (to_number w)
              (if res_energy_flow r x = Some (Val ''producing'') then - 1 else 1)))"
    and "res_power_ab (fst (pj1203aRecomputePowerAb r p)) =
           (case (pub_power_x (snd (pj1203aRecomputePowerAb r p)) A,
                  pub_power_x (snd (pj1203aRecomputePowerAb r p)) B) of
              (Val a, Val b) \<Rightarrow> Some (Val (recomputed_power_ab a b))
            | _ \<Rightarrow> res_power_ab r)"
  using assms
  by (cases x; simp add: pj1203aRecomputePowerAb_def Let_def recomputed_power_ab_def
      split: nullable.splits)+

lemma FlushAll_incomplete_proj:
  assumes "sign_x p x = Null \<or> power_x p x = Null \<or> current_x p x = Null \<or> power_factor_x p x = Null"
  shows "fst (snd (pj1203aFlushAll r x p opts)) = r"
    and "pub_power_x (snd (snd (pj1203aFlushAll r x p opts))) = pub_power_x p"
    and "sign_x (snd (snd (pj1203aFlushAll r x p opts))) = (sign_x p)(x := Null)"
    and "power_x (snd (snd (pj1203aFlushAll r x p opts))) = (power_x p)(x := Null)"
  using FlushAll_incomplete [OF assms, of r opts] by simp_all

lemma FlushAll_state:
  "sign_x (snd (snd (pj1203aFlushAll r x p opts))) = (sign_x p)(x := Null)"
  "power_x (snd (snd (pj1203aFlushAll r x p opts))) = (power_x p)(x := Null)"
  by (simp_all add: pj1203aFlushAll_def Let_def split_beta RecomputePowerAb_frame split: nullable.splits)

lemma FlushAll_complete_pub:
  assumes "sign_x p x = Val s" "power_x p x = Val q" "current_x p x = Val c"
    "power_factor_x p x = Val pf"
  shows "pub_power_x (snd (snd (pj1203aFlushAll empty_result x p opts))) =
           (pub_power_x p)(x := Val (js_mul (if pj1203aGetSignedPower opts x then js_mul s q else q)
              (if \<not> pj1203aGetSignedPower opts x \<and> \<not> s > 0 then - 1 else 1)))"
    and "res_power_ab (fst (snd (pj1203aFlushAll empty_result x p opts))) =
           (case (pub_power_x (snd (snd (pj1203aFlushAll empty_result x p opts))) A,
                  pub_power_x (snd (snd (pj1203aFlushAll empty_result x p opts))) B) of
              (Val a, Val b) \<Rightarrow> Some (Val (recomputed_power_ab a b))
            | _ \<Rightarrow> None)"
    and "res_power (fst (snd (pj1203aFlushAll empty_result x p opts))) =
           (\<lambda>_. None)(x := Some (Val (if pj1203aGetSignedPower opts x then js_mul s q else q)))"
    and "res_energy_flow (fst (snd (pj1203aFlushAll empty_result x p opts))) =
           (\<lambda>_. None)(x := Some (Val (if pj1203aGetSignedPower opts x then ''sign''
                        else if s > 0 then ''consuming'' else ''producing'')))"
proof -
  let ?w = "if pj1203aGetSignedPower opts x then js_mul s q else q"
  let ?l = "if pj1203aGetSignedPower opts x then ''sign''
            else if s > 0 then ''consuming'' else ''producing''"
  let ?p1 = "p\<lparr>sign_x := (sign_x p)(x := Null), power_x := (power_x p)(x := Null),
                current_x := (current_x p)(x := Null),
                power_factor_x := (power_factor_x p)(x := Null)\<rparr>"
  let ?r2 = "empty_result\<lparr>res_power := (\<lambda>_. None)(x := Some (Val ?w)),
                res_energy_flow := (\<lambda>_. None)(x := Some (Val ?l)),
                res_timestamp := (\<lambda>_. None)(x := Some (timestamp_x p x)),
                res_current := (\<lambda>_. None)(x := Some (Val c)),
                res_power_factor := (\<lambda>_. None)(x := Some (Val pf))\<rparr>"
  have e: "pj1203aFlushAll empty_result x p opts =
             (True, pj1203aRecomputePowerAb ?r2 ?p1)"
    using assms by (simp add: pj1203aFlushAll_def Let_def empty_result_def split_beta)
  have rp: "res_power ?r2 = (\<lambda>_. None)(x := Some (Val ?w))" by simp
  have ab: "res_power_ab ?r2 = None" by (simp add: empty_result_def)
  have l: "(res_energy_flow ?r2 x = Some (Val ''producing''))
            = (\<not> pj1203aGetSignedPower opts x \<and> \<not> s > 0)" by simp
  note R = Recompute_single [OF rp, of ?p1]
  show "pub_power_x (snd (snd (pj1203aFlushAll empty_result x p opts))) =
           (pub_power_x p)(x := Val (js_mul ?w
              (if \<not> pj1203aGetSignedPower opts x \<and> \<not> s > 0 then - 1 else 1)))"
    unfolding e snd_conv R(1) l by simp
  show "res_power_ab (fst (snd (pj1203aFlushAll empty_result x p opts))) =
           (case (pub_power_x (snd (snd (pj1203aFlushAll empty_result x p opts))) A,
                  pub_power_x (snd (snd (pj1203aFlushAll empty_result x p opts))) B) of
              (Val a, Val b) \<Rightarrow> Some (Val (recomputed_power_ab a b))
            | _ \<Rightarrow> None)"
    unfolding e snd_conv R(2) ab ..
  show "res_power (fst (snd (pj1203aFlushAll empty_result x p opts))) = (\<lambda>_. None)(x := Some (Val ?w))"
    unfolding e snd_conv RecomputePowerAb_result by simp
  show "res_energy_flow (fst (snd (pj1203aFlushAll empty_result x p opts))) = (\<lambda>_. None)(x := Some (Val ?l))"
    unfolding e snd_conv RecomputePowerAb_result by simp
qed

lemma tenth_Null: "tenth Null"
  by (simp add: tenth_def)

lemma tenth_fixed: "tenth (Val q) \<Longrightarrow> fl64 q = q"
  by (auto simp add: tenth_def fl64_idem)

lemma tenth_raw: "\<bar>v\<bar> \<le> 2 ^ 32 \<Longrightarrow> tenth (Val (js_div (of_int v) 10))"
  by (auto simp add: tenth_def js_div_def)

lemma tenth_zero: "tenth (Val 0)"
proof -
  have "(0::rat) = fl64 (of_int 0 / 10)" by (simp add: fl64_0)
  then show ?thesis unfolding tenth_def by (auto intro!: exI [of _ "0::int"])
qed

lemma tenth_minus: "tenth (Val q) \<Longrightarrow> tenth (Val (- q))"
proof -
  assume "tenth (Val q)"
  then obtain k where k: "\<bar>k\<bar> \<le> 2 ^ 32" "q = fl64 (of_int k / 10)"
    by (auto simp add: tenth_def)
  have "- q = fl64 (of_int (- k) / 10)" using k(2) by (simp add: fl64_minus)
  moreover have "\<bar>- k\<bar> \<le> 2 ^ 32" using k(1) by simp
  ultimately show ?thesis unfolding tenth_def by (auto intro!: exI [of _ "- k"])
qed

lemma js_mul_one: "tenth (Val q) \<Longrightarrow> js_mul q 1 = q"
  by (simp add: js_mul_def tenth_fixed)

lemma js_mul_minus_one: "tenth (Val q) \<Longrightarrow> js_mul q (- 1) = - q"
  by (simp add: js_mul_def fl64_minus tenth_fixed)

lemma js_mul_one_left: "tenth (Val q) \<Longrightarrow> js_mul 1 q = q"
  by (simp add: js_mul_def tenth_fixed)

lemma js_mul_minus_one_left: "tenth (Val q) \<Longrightarrow> js_mul (- 1) q = - q"
  by (simp add: js_mul_def fl64_minus tenth_fixed)

lemma step_ok_refl: "wf_priv p \<Longrightarrow> step_ok p empty_result p"
  by (simp add: step_ok_def signed_power_of_def expected_power_ab_def empty_result_def)

lemma FlushAll_step:
  assumes "wf_priv p"
  shows "step_ok p (fst (snd (pj1203aFlushAll empty_result x p opts)))
                   (snd (snd (pj1203aFlushAll empty_result x p opts)))"
proof (cases "sign_x p x = Null \<or> power_x p x = Null \<or> current_x p x = Null \<or> power_factor_x p x = Null")
  case True
  note i = FlushAll_incomplete_proj [OF True, of empty_result opts]
  have "wf_priv (snd (snd (pj1203aFlushAll empty_result x p opts)))"
    using assms unfolding wf_priv_def i by (simp add: tenth_Null known_sign_def)
  then show ?thesis
    unfolding step_ok_def i
    by (simp add: signed_power_of_def expected_power_ab_def empty_result_def)
next
  case False
  then obtain s q c pf where v: "sign_x p x = Val s" "power_x p x = Val q" "current_x p x = Val c"
    "power_factor_x p x = Val pf"
    by (cases "sign_x p x"; cases "power_x p x"; cases "current_x p x"; cases "power_factor_x p x") auto
  have s: "s = 1 \<or> s = - 1" using assms v(1) by (auto simp add: wf_priv_def known_sign_def dest: spec [of _ x])
  have q: "tenth (Val q)" using assms v(2) by (auto simp add: wf_priv_def dest: spec [of _ x])
  have mq: "tenth (Val (- q))" using q by (rule tenth_minus)
  define w where "w = (if pj1203aGetSignedPower opts x then js_mul s q else q)"
  define cf :: rat where "cf = (if \<not> pj1203aGetSignedPower opts x \<and> \<not> s > 0 then - 1 else 1)"
  define l where "l = (if pj1203aGetSignedPower opts x then ''sign''
            else if s > 0 then ''consuming'' else ''producing'')"
  note c = FlushAll_complete_pub [OF v, of opts, folded w_def cf_def l_def]
  note st = FlushAll_state [of empty_result x p opts]
  have pubx: "js_mul w cf = w * (if l = ''producing'' then - 1 else 1)"
    and tpub: "tenth (Val (js_mul w cf))"
    using s q mq unfolding w_def cf_def l_def
    by (auto simp add: js_mul_one js_mul_minus_one js_mul_one_left js_mul_minus_one_left)
  have wf: "wf_priv (snd (snd (pj1203aFlushAll empty_result x p opts)))"
    using assms tpub unfolding wf_priv_def st c by (simp add: tenth_Null known_sign_def)
  have sp: "signed_power_of (fst (snd (pj1203aFlushAll empty_result x p opts))) x'
              = (if x' = x then Some (js_mul w cf) else None)" for x'
    unfolding signed_power_of_def c pubx by simp
  have ex: "expected_power_ab (fst (snd (pj1203aFlushAll empty_result x p opts)))
               (snd (snd (pj1203aFlushAll empty_result x p opts)))
            = res_power_ab (fst (snd (pj1203aFlushAll empty_result x p opts)))"
    unfolding expected_power_ab_def c(2) unfolding c(3) by (cases x) simp_all
  show ?thesis
    unfolding step_ok_def sp ex using wf unfolding c by simp
qed

lemma wf_priv_upd:
  "wf_priv (p\<lparr>power_factor_x := f1\<rparr>) = wf_priv p"
  "wf_priv (p\<lparr>current_x := f2\<rparr>) = wf_priv p"
  "wf_priv (p\<lparr>timestamp_x := f3\<rparr>) = wf_priv p"
  "wf_priv (p\<lparr>zero_power_x := f4\<rparr>) = wf_priv p"
  "wf_priv (p\<lparr>zero_current_x := f5\<rparr>) = wf_priv p"
  "wf_priv (p\<lparr>last_seq := n\<rparr>) = wf_priv p"
  by (simp_all add: wf_priv_def)

lemma wf_priv_power: "wf_priv p \<Longrightarrow> tenth a \<Longrightarrow> wf_priv (p\<lparr>power_x := (power_x p)(x := a)\<rparr>)"
  by (simp add: wf_priv_def)

lemma wf_priv_sign: "wf_priv p \<Longrightarrow> known_sign s \<Longrightarrow> wf_priv (p\<lparr>sign_x := (sign_x p)(x := s)\<rparr>)"
  by (simp add: wf_priv_def)

lemma step_ok_upd:
  "step_ok p r (p'\<lparr>zero_power_x := f4\<rparr>) = step_ok p r p'"
  "step_ok p r (p'\<lparr>zero_current_x := f5\<rparr>) = step_ok p r p'"
  by (simp_all add: step_ok_def wf_priv_upd expected_power_ab_def)

lemma step_ok_pre:
  assumes "pub_power_x p1 = pub_power_x p" "step_ok p1 r p'"
  shows "step_ok p r p'"
  using assms(2) unfolding step_ok_def assms(1) .

lemma step_flush:
  assumes "wf_priv p1" "pub_power_x p1 = pub_power_x p"
  shows "step_ok p (fst (snd (pj1203aFlushAll empty_result x p1 opts)))
                   (snd (snd (pj1203aFlushAll empty_result x p1 opts)))"
  using step_ok_pre [OF assms(2) FlushAll_step [OF assms(1)]] .

lemma step_none:
  assumes "wf_priv p1" "pub_power_x p1 = pub_power_x p"
  shows "step_ok p empty_result p1"
  using step_ok_pre [OF assms(2) step_ok_refl [OF assms(1)]] .

lemma known_sign_simps: "known_sign (Val 1)" "known_sign (Val (- 1))" "known_sign Null"
  by (simp_all add: known_sign_def)

lemma power_factor_from_step:
  assumes "wf_priv p"
  shows "step_ok p (fst (power_factor_from x v (Some p) opts)) (snd (power_factor_from x v (Some p) opts))"
  using assms
  by (simp add: power_factor_from_def pj1203aGetPrivateState_def Let_def step_flush step_none wf_priv_upd)

lemma energy_flow_from_step:
  assumes "wf_priv p"
  shows "step_ok p (fst (energy_flow_from x v (Some p) opts)) (snd (energy_flow_from x v (Some p) opts))"
  using assms
  by (simp add: energy_flow_from_def pj1203aGetPrivateState_def Let_def step_flush step_none
      wf_priv_sign known_sign_simps)

lemma power_ab_from_step:
  assumes "wf_priv p"
  shows "step_ok p (fst (power_ab_from v (Some p) opts)) (snd (power_ab_from v (Some p) opts))"
  using assms
  by (simp add: power_ab_from_def pj1203aGetPrivateState_def step_ok_refl)

lemma FlushZero_step:
  assumes "wf_priv p1" "pub_power_x p1 = pub_power_x p"
  shows "step_ok p (fst (pj1203aFlushZero empty_result x p1 opts now))
                   (snd (pj1203aFlushZero empty_result x p1 opts now))"
proof -
  have "wf_priv (p1\<lparr>sign_x := (sign_x p1)(x := Val 1), power_x := (power_x p1)(x := Val 0),
                    timestamp_x := (timestamp_x p1)(x := Val now),
                    current_x := (current_x p1)(x := Val 0),
                    power_factor_x := (power_factor_x p1)(x := Val 100)\<rparr>)"
    using assms(1) by (simp add: wf_priv_def known_sign_simps tenth_zero)
  then show ?thesis
    using assms(2) by (simp add: pj1203aFlushZero_def Let_def step_flush)
qed

lemma FlushNull_step:
  assumes "wf_priv p1" "pub_power_x p1 = pub_power_x p"
  shows "step_ok p (fst (pj1203aFlushNull empty_result x p1 opts now))
                   (snd (pj1203aFlushNull empty_result x p1 opts now))"
proof -
  have "wf_priv (p1\<lparr>sign_x := (sign_x p1)(x := Null), power_x := (power_x p1)(x := Null),
                    current_x := (current_x p1)(x := Null),
                    power_factor_x := (power_factor_x p1)(x := Null),
                    timestamp_x := (timestamp_x p1)(x := Val now)\<rparr>)"
    using assms(1) by (simp add: wf_priv_def known_sign_simps tenth_Null)
  then show ?thesis
    using assms(2) by (simp add: pj1203aFlushNull_def Let_def step_flush)
qed

lemma power_from_step:
  assumes "wf_priv p" "\<bar>v\<bar> \<le> 2 ^ 32"
  shows "step_ok p (fst (power_from x v now (Some p) opts)) (snd (power_from x v now (Some p) opts))"
proof -
  let ?p2 = "p\<lparr>power_x := (power_x p)(x := Val (js_div (of_int v) 10)),
               timestamp_x := (timestamp_x p)(x := Val now)\<rparr>"
  have w: "wf_priv ?p2" using assms by (simp add: wf_priv_upd wf_priv_power tenth_raw)
  have e: "pub_power_x ?p2 = pub_power_x p" by simp
  show ?thesis
    using FlushZero_step [OF w e, of x opts now] FlushNull_step [OF w e, of x opts now] step_none [OF w e]
    by (cases "v = 0") (simp_all add: power_from_def pj1203aGetPrivateState_def Let_def split_beta step_ok_upd)
qed

lemma current_from_step:
  assumes "wf_priv p"
  shows "step_ok p (fst (current_from x v now (Some p) opts)) (snd (current_from x v now (Some p) opts))"
proof -
  let ?p1 = "p\<lparr>current_x := (current_x p)(x := Val (js_div (of_int v) 1000))\<rparr>"
  have w: "wf_priv ?p1" using assms by (simp add: wf_priv_upd)
  have e: "pub_power_x ?p1 = pub_power_x p" by simp
  show ?thesis
    using FlushZero_step [OF w e, of x opts now] FlushNull_step [OF w e, of x opts now] step_none [OF w e]
    by (cases "v = 0") (simp_all add: current_from_def pj1203aGetPrivateState_def Let_def split_beta step_ok_upd)
qed

lemma channel_all: "(\<forall>x. P x) = (P A \<and> P B)"
proof
  assume "\<forall>x. P x" then show "P A \<and> P B" by simp
next
  assume h: "P A \<and> P B"
  show "\<forall>x. P x"
  proof
    fix x show "P x" using h by (cases x) simp_all
  qed
qed

lemma signed_power_of_assign:
  assumes "(res_power r' x = None) = (res_energy_flow r' x = None)"
  shows "signed_power_of (object_assign r r') x =
           (case signed_power_of r' x of Some a \<Rightarrow> Some a | None \<Rightarrow> signed_power_of r x)"
  using assms
  by (auto simp add: signed_power_of_def object_assign_def map_add_def split: option.splits)

lemma res_power_assign:
  "(res_power (object_assign r r') x = None) = (res_power r x = None \<and> res_power r' x = None)"
  "(res_energy_flow (object_assign r r') x = None)
     = (res_energy_flow r x = None \<and> res_energy_flow r' x = None)"
  "res_power_ab (object_assign r r') =
     (case res_power_ab r' of Some w \<Rightarrow> Some w | None \<Rightarrow> res_power_ab r)"
  by (auto simp add: object_assign_def map_add_def split: option.splits)

lemma step_ok_compose:
  assumes "step_ok p0 r p" "step_ok p r' p'"
  shows "step_ok p0 (object_assign r r') p'"
proof -
  from assms(1) have a: "\<And>x. pub_power_x p x =
             (case signed_power_of r x of Some a \<Rightarrow> Val a | None \<Rightarrow> pub_power_x p0 x)"
    and a3: "res_power_ab r = expected_power_ab r p"
    and a4: "\<And>x. (res_power r x = None) = (res_energy_flow r x = None)"
    by (simp_all add: step_ok_def)
  from assms(2) have wf: "wf_priv p'"
    and b: "\<And>x. pub_power_x p' x =
             (case signed_power_of r' x of Some a \<Rightarrow> Val a | None \<Rightarrow> pub_power_x p x)"
    and b3: "res_power_ab r' = expected_power_ab r' p'"
    and b4: "\<And>x. (res_power r' x = None) = (res_energy_flow r' x = None)"
    by (simp_all add: step_ok_def)
  have sp: "\<And>x. signed_power_of (object_assign r r') x =
           (case signed_power_of r' x of Some a \<Rightarrow> Some a | None \<Rightarrow> signed_power_of r x)"
    by (rule signed_power_of_assign [OF b4])
  have c2: "\<And>x. pub_power_x p' x =
             (case signed_power_of (object_assign r r') x of Some a \<Rightarrow> Val a
              | None \<Rightarrow> pub_power_x p0 x)"
    unfolding sp b a by (simp split: option.splits)
  have c4: "\<And>x. (res_power (object_assign r r') x = None)
               = (res_energy_flow (object_assign r r') x = None)"
    unfolding res_power_assign a4 b4 ..
  have n: "\<And>x. res_power r' x = None \<Longrightarrow> pub_power_x p' x = pub_power_x p x"
    unfolding b by (simp add: signed_power_of_def)
  have m: "\<And>x. pub_power_x p' x = Null \<Longrightarrow> pub_power_x p x = Null"
    unfolding b by (simp split: option.splits)
  have c3: "res_power_ab (object_assign r r') = expected_power_ab (object_assign r r') p'"
  proof (cases "res_power r' A = None \<and> res_power r' B = None")
    case True
    then have "pub_power_x p' A = pub_power_x p A" "pub_power_x p' B = pub_power_x p B"
      using n by simp_all
    then show ?thesis
      using True a3 b3 unfolding res_power_assign expected_power_ab_def by simp
  next
    case False
    show ?thesis
    proof (cases "pub_power_x p' A = Null \<or> pub_power_x p' B = Null")
      case True
      then have "pub_power_x p A = Null \<or> pub_power_x p B = Null" using m by blast
      then show ?thesis
        using True False a3 b3 unfolding res_power_assign expected_power_ab_def
        by (auto split: nullable.splits)
    next
      case False
      then obtain va vb where "pub_power_x p' A = Val va" "pub_power_x p' B = Val vb"
        by (cases "pub_power_x p' A"; cases "pub_power_x p' B") simp_all
      then show ?thesis
        using \<open>\<not> (res_power r' A = None \<and> res_power r' B = None)\<close> b3
        unfolding res_power_assign expected_power_ab_def by auto
    qed
  qed
  show ?thesis unfolding step_ok_def using wf c2 c3 c4 by blast
qed

lemma named_frame:
  "signed_power_of (r\<lparr>res_named := f\<rparr>) = signed_power_of r"
  "expected_power_ab (r\<lparr>res_named := f\<rparr>) p = expected_power_ab r p"
  by (simp_all add: signed_power_of_def expected_power_ab_def fun_eq_iff)

lemma step_ok_named: "step_ok p0 (r\<lparr>res_named := f\<rparr>) p = step_ok p0 r p"
  unfolding step_ok_def named_frame by simp

lemma step_ab_refl: "step_ab p empty_result p"
  by (simp add: step_ab_def expected_power_ab_def empty_result_def)

lemma step_ab_pre:
  assumes "pub_power_x p1 = pub_power_x p" "step_ab p1 r p'"
  shows "step_ab p r p'"
  using assms(2) unfolding step_ab_def assms(1) .

lemma step_ab_upd:
  "step_ab p r (p'\<lparr>zero_power_x := f4\<rparr>) = step_ab p r p'"
  "step_ab p r (p'\<lparr>zero_current_x := f5\<rparr>) = step_ab p r p'"
  by (simp_all add: step_ab_def expected_power_ab_def)

lemma FlushAll_ab:
  "step_ab p (fst (snd (pj1203aFlushAll empty_result x p opts)))
             (snd (snd (pj1203aFlushAll empty_result x p opts)))"
proof (cases "sign_x p x = Null \<or> power_x p x = Null \<or> current_x p x = Null \<or> power_factor_x p x = Null")
  case True
  note i = FlushAll_incomplete_proj [OF True, of empty_result opts]
  show ?thesis unfolding step_ab_def i
    by (simp add: expected_power_ab_def empty_result_def)
next
  case False
  then obtain s q c pf where v: "sign_x p x = Val s" "power_x p x = Val q" "current_x p x = Val c"
    "power_factor_x p x = Val pf"
    by (cases "sign_x p x"; cases "power_x p x"; cases "current_x p x"; cases "power_factor_x p x") auto
  define w where "w = (if pj1203aGetSignedPower opts x then js_mul s q else q)"
  define cf :: rat where "cf = (if \<not> pj1203aGetSignedPower opts x \<and> \<not> s > 0 then - 1 else 1)"
  note c = FlushAll_complete_pub [OF v, of opts, folded w_def cf_def]
  have ex: "expected_power_ab (fst (snd (pj1203aFlushAll empty_result x p opts)))
               (snd (snd (pj1203aFlushAll empty_result x p opts)))
            = res_power_ab (fst (snd (pj1203aFlushAll empty_result x p opts)))"
    unfolding expected_power_ab_def c(2) unfolding c(3) by (cases x) simp_all
  show ?thesis
    unfolding step_ab_def ex unfolding c by simp
qed

lemma flush_ab:
  assumes "pub_power_x p1 = pub_power_x p"
  shows "step_ab p (fst (snd (pj1203aFlushAll empty_result x p1 opts)))
                   (snd (snd (pj1203aFlushAll empty_result x p1 opts)))"
    and "step_ab p empty_result p1"
    and "step_ab p (fst (pj1203aFlushZero empty_result x p1 opts now))
                   (snd (pj1203aFlushZero empty_result x p1 opts now))"
    and "step_ab p (fst (pj1203aFlushNull empty_result x p1 opts now))
                   (snd (pj1203aFlushNull empty_result x p1 opts now))"
proof -
  show "step_ab p (fst (snd (pj1203aFlushAll empty_result x p1 opts)))
                   (snd (snd (pj1203aFlushAll empty_result x p1 opts)))"
    using step_ab_pre [OF assms FlushAll_ab] .
  show "step_ab p empty_result p1" using step_ab_pre [OF assms step_ab_refl] .
  show "step_ab p (fst (pj1203aFlushZero empty_result x p1 opts now))
                   (snd (pj1203aFlushZero empty_result x p1 opts now))"
    unfolding pj1203aFlushZero_def Let_def
    by (rule step_ab_pre [OF _ FlushAll_ab]) (simp add: assms)
  show "step_ab p (fst (pj1203aFlushNull empty_result x p1 opts now))
                   (snd (pj1203aFlushNull empty_result x p1 opts now))"
    unfolding pj1203aFlushNull_def Let_def
    by (rule step_ab_pre [OF _ FlushAll_ab]) (simp add: assms)
qed

lemma handlers_ab:
  "step_ab p (fst (power_from x v now (Some p) opts)) (snd (power_from x v now (Some p) opts))"
  "step_ab p (fst (current_from x v now (Some p) opts)) (snd (current_from x v now (Some p) opts))"
  "step_ab p (fst (power_factor_from x v (Some p) opts)) (snd (power_factor_from x v (Some p) opts))"
  "step_ab p (fst (energy_flow_from x v (Some p) opts)) (snd (energy_flow_from x v (Some p) opts))"
  "step_ab p (fst (power_ab_from v (Some p) opts)) (snd (power_ab_from v (Some p) opts))"
  by (simp_all add: power_from_def current_from_def power_factor_from_def energy_flow_from_def
      power_ab_from_def pj1203aGetPrivateState_def Let_def split_beta step_ab_upd flush_ab step_ab_refl)

lemma step_ab_compose:
  assumes "step_ab p0 r p" "step_ab p r' p'"
  shows "step_ab p0 (object_assign r r') p'"
proof -
  from assms(1) have a1: "\<And>x. res_power r x = None \<Longrightarrow> pub_power_x p x = pub_power_x p0 x"
    and a2: "\<And>x. pub_power_x p x = Null \<Longrightarrow> pub_power_x p0 x = Null"
    and a3: "res_power_ab r = expected_power_ab r p"
    by (simp_all add: step_ab_def)
  from assms(2) have n: "\<And>x. res_power r' x = None \<Longrightarrow> pub_power_x p' x = pub_power_x p x"
    and m: "\<And>x. pub_power_x p' x = Null \<Longrightarrow> pub_power_x p x = Null"
    and b3: "res_power_ab r' = expected_power_ab r' p'"
    by (simp_all add: step_ab_def)
  have c1: "\<forall>x. res_power (object_assign r r') x = None \<longrightarrow> pub_power_x p' x = pub_power_x p0 x"
    unfolding res_power_assign using a1 n by simp
  have c2: "\<forall>x. pub_power_x p' x = Null \<longrightarrow> pub_power_x p0 x = Null"
    using a2 m by simp
  have c3: "res_power_ab (object_assign r r') = expected_power_ab (object_assign r r') p'"
  proof (cases "res_power r' A = None \<and> res_power r' B = None")
    case True
    then have "pub_power_x p' A = pub_power_x p A" "pub_power_x p' B = pub_power_x p B"
      using n by simp_all
    then show ?thesis
      using True a3 b3 unfolding res_power_assign expected_power_ab_def by simp
  next
    case False
    show ?thesis
    proof (cases "pub_power_x p' A = Null \<or> pub_power_x p' B = Null")
      case True
      then have "pub_power_x p A = Null \<or> pub_power_x p B = Null" using m by blast
      then show ?thesis
        using True False a3 b3 unfolding res_power_assign expected_power_ab_def
        by (auto split: nullable.splits)
    next
      case False
      then obtain va vb where "pub_power_x p' A = Val va" "pub_power_x p' B = Val vb"
        by (cases "pub_power_x p' A"; cases "pub_power_x p' B") simp_all
      then show ?thesis
        using \<open>\<not> (res_power r' A = None \<and> res_power r' B = None)\<close> b3
        unfolding res_power_assign expected_power_ab_def by auto
    qed
  qed
  show ?thesis unfolding step_ab_def using c1 c2 c3 by blast
qed

lemma step_ab_named: "step_ab p0 (r\<lparr>res_named := f\<rparr>) p = step_ab p0 r p"
  unfolding step_ab_def named_frame by simp

lemma step_ok_wf: "step_ok p0 r p \<Longrightarrow> wf_priv p"
  by (simp add: step_ok_def)

lemma table_handler_ab:
  assumes "find (\<lambda>e. entry_dp e = dp) tuyaDatapoints = Some (Handler d h)"
  shows "step_ab p (fst (h v now (Some p) opts)) (snd (h v now (Some p) opts))"
  using table_handler [OF assms] by (elim disjE) (simp_all add: handlers_ab)

lemma table_handler_ok:
  assumes "find (\<lambda>e. entry_dp e = dp) tuyaDatapoints = Some (Handler d h)"
    "wf_priv p" "\<bar>v\<bar> \<le> 2 ^ 32"
  shows "step_ok p (fst (h v now (Some p) opts)) (snd (h v now (Some p) opts))"
  using table_handler [OF assms(1)] assms(2,3)
  by (elim disjE)
    (simp_all add: power_from_step current_from_step power_factor_from_step
      energy_flow_from_step power_ab_from_step)

lemma dispatch_ab:
  "step_ab p0 r p \<Longrightarrow>
     step_ab p0 (fst (tuya_datapoints_convert tuyaDatapoints dps now opts r p))
                (snd (tuya_datapoints_convert tuyaDatapoints dps now opts r p))"
proof (induction dps arbitrary: r p)
  case Nil
  then show ?case by simp
next
  case (Cons a dps)
  obtain dp v where a: "a = (dp, v)" by (cases a)
  show ?case
  proof (cases "find (\<lambda>e. entry_dp e = dp) tuyaDatapoints")
    case None
    then show ?thesis using Cons a by simp
  next
    case (Some e)
    show ?thesis
    proof (cases e)
      case (Named d n f)
      then show ?thesis using Cons a Some by (simp add: step_ab_named)
    next
      case (Handler d h)
      have "step_ab p0 (object_assign r (fst (h v now (Some p) opts))) (snd (h v now (Some p) opts))"
        using step_ab_compose [OF Cons.prems table_handler_ab [OF Some [unfolded Handler]]] .
      from Cons.IH [OF this] show ?thesis using a Some Handler by (simp add: split_beta)
    qed
  qed
qed

lemma dispatch_ok:
  "step_ok p0 r p \<Longrightarrow> list_all (\<lambda>(dp, v). \<bar>v\<bar> \<le> 2 ^ 32) dps \<Longrightarrow>
     step_ok p0 (fst (tuya_datapoints_convert tuyaDatapoints dps now opts r p))
                (snd (tuya_datapoints_convert tuyaDatapoints dps now opts r p))"
proof (induction dps arbitrary: r p)
  case Nil
  then show ?case by simp
next
  case (Cons a dps)
  obtain dp v where a: "a = (dp, v)" by (cases a)
  have v: "\<bar>v\<bar> \<le> 2 ^ 32" and rest: "list_all (\<lambda>(dp, v). \<bar>v\<bar> \<le> 2 ^ 32) dps"
    using Cons.prems(2) a by simp_all
  show ?case
  proof (cases "find (\<lambda>e. entry_dp e = dp) tuyaDatapoints")
    case None
    then show ?thesis using Cons.IH [OF Cons.prems(1) rest] a by simp
  next
    case (Some e)
    show ?thesis
    proof (cases e)
      case (Named d n f)
      have "step_ok p0 (r\<lparr>res_named := (res_named r)(n := Some (f v))\<rparr>) p"
        using Cons.prems(1) by (simp add: step_ok_named)
      from Cons.IH [OF this rest] show ?thesis using a Some Named by simp
    next
      case (Handler d h)
      have "step_ok p0 (object_assign r (fst (h v now (Some p) opts))) (snd (h v now (Some p) opts))"
        using step_ok_compose [OF Cons.prems(1)
            table_handler_ok [OF Some [unfolded Handler] step_ok_wf [OF Cons.prems(1)] v]] .
      from Cons.IH [OF this rest] show ?thesis using a Some Handler by (simp add: split_beta)
    qed
  qed
qed

lemma object_assign_empty: "object_assign empty_result r = r"
  by (cases r) (simp add: object_assign_def empty_result_def split: option.splits)

lemma track_seq_pub: "pub_power_x (track_seq p s) = pub_power_x p"
  by (simp add: track_seq_def clear_pending_def Let_def)

lemma track_seq_wf: "wf_priv p \<Longrightarrow> wf_priv (track_seq p s)"
  by (simp add: track_seq_def clear_pending_def Let_def wf_priv_def known_sign_simps tenth_Null)

lemma convert_ab:
  "step_ab (pj1203aGetPrivateState st) (fst (pj1203aFzDatapoints_convert m now opts st))
           (snd (pj1203aFzDatapoints_convert m now opts st))"
proof -
  have "step_ab (pj1203aGetPrivateState st) empty_result
          (track_seq (pj1203aGetPrivateState st) (data_seq m))"
    by (rule step_ab_pre [OF track_seq_pub step_ab_refl])
  from dispatch_ab [OF this] show ?thesis
    by (simp add: pj1203aFzDatapoints_convert_def Let_def split_beta object_assign_empty)
qed

lemma convert_ok:
  assumes "wf_priv (pj1203aGetPrivateState st)"
    "list_all (\<lambda>(dp, v). \<bar>v\<bar> \<le> 2 ^ 32) (data_dpValues m)"
  shows "step_ok (pj1203aGetPrivateState st) (fst (pj1203aFzDatapoints_convert m now opts st))
           (snd (pj1203aFzDatapoints_convert m now opts st))"
proof -
  have "step_ok (pj1203aGetPrivateState st) empty_result
          (track_seq (pj1203aGetPrivateState st) (data_seq m))"
    by (rule step_ok_pre [OF track_seq_pub step_ok_refl [OF track_seq_wf [OF assms(1)]]])
  from dispatch_ok [OF this assms(2)] show ?thesis
    by (simp add: pj1203aFzDatapoints_convert_def Let_def split_beta object_assign_empty)
qed

lemma process_ok:
  assumes "wf_priv (pj1203aGetPrivateState st)" "raw_bounded e"
  shows "step_ok (pj1203aGetPrivateState st) (fst (process opts st e)) (snd (process opts st e))"
proof (cases e)
  case (Datapoints m now)
  then show ?thesis using convert_ok [OF assms(1)] assms(2) by simp
next
  case SyncTime
  have "wf_priv (pj1203aIgnoreTuyaSetTime_convert st)"
    using assms(1) by (simp add: pj1203aIgnoreTuyaSetTime_convert_def Let_def wf_priv_upd)
  moreover have "pub_power_x (pj1203aIgnoreTuyaSetTime_convert st)
                   = pub_power_x (pj1203aGetPrivateState st)"
    by (simp add: pj1203aIgnoreTuyaSetTime_convert_def Let_def)
  ultimately show ?thesis using SyncTime step_ok_pre [OF _ step_ok_refl] by simp
qed

lemma run_snoc:
  "run opts st (es @ [e]) =
     (case run opts st es of
        (rs, st') \<Rightarrow> (case process opts st' e of (r, p) \<Rightarrow> (rs @ [r], Some p)))"
  by (induction es arbitrary: st) (simp_all add: split_beta)

lemma last_signed_snoc:
  "last_signed x (rs @ [r]) =
     (case signed_power_of r x of Some a \<Rightarrow> Some a | None \<Rightarrow> last_signed x rs)"
  by (induction rs) (simp_all split: option.splits)

lemma GetPrivateState_Some: "pj1203aGetPrivateState (Some p) = p"
  by (simp add: pj1203aGetPrivateState_def)

lemma wf_priv_init: "wf_priv (pj1203aGetPrivateState None)"
  by (simp add: wf_priv_def pj1203aGetPrivateState_def known_sign_simps tenth_Null)

lemma run_inv:
  assumes "list_all raw_bounded es"
  shows "wf_priv (pj1203aGetPrivateState (snd (run opts None es)))
       \<and> (\<forall>x. pub_power_x (pj1203aGetPrivateState (snd (run opts None es))) x =
             (case last_signed x (fst (run opts None es)) of None \<Rightarrow> Null | Some a \<Rightarrow> Val a))"
  using assms
proof (induction es rule: rev_induct)
  case Nil
  show ?case by (simp add: wf_priv_init) (simp add: pj1203aGetPrivateState_def)
next
  case (snoc e es)
  obtain rs st' where r: "run opts None es = (rs, st')" by (cases "run opts None es")
  obtain r' p where p: "process opts st' e = (r', p)" by (cases "process opts st' e")
  have ih: "wf_priv (pj1203aGetPrivateState st')"
    "\<And>x. pub_power_x (pj1203aGetPrivateState st') x =
             (case last_signed x rs of None \<Rightarrow> Null | Some a \<Rightarrow> Val a)"
    using snoc by (simp_all add: r)
  have b: "raw_bounded e" using snoc.prems by simp
  have s: "step_ok (pj1203aGetPrivateState st') r' p"
    using process_ok [OF ih(1) b, of opts] by (simp add: p)
  then have wf: "wf_priv p"
    and pub: "\<And>x. pub_power_x p x =
             (case signed_power_of r' x of Some a \<Rightarrow> Val a
              | None \<Rightarrow> pub_power_x (pj1203aGetPrivateState st') x)"
    by (simp_all add: step_ok_def)
  have e: "run opts None (es @ [e]) = (rs @ [r'], Some p)"
    by (simp add: run_snoc r p)
  show ?case
    unfolding e fst_conv snd_conv last_signed_snoc
    using wf by (simp add: GetPrivateState_Some pub ih(2) split: option.splits)
qed

lemma run_last:
  assumes "list_all raw_bounded es" "es \<noteq> []"
  shows "res_power_ab (last (fst (run opts None es))) =
           expected_power_ab (last (fst (run opts None es)))
             (pj1203aGetPrivateState (snd (run opts None es)))"
proof -
  obtain es' e where es: "es = es' @ [e]" using assms(2) by (cases es rule: rev_cases) simp_all
  obtain rs st' where r: "run opts None es' = (rs, st')" by (cases "run opts None es'")
  obtain r' p where p: "process opts st' e = (r', p)" by (cases "process opts st' e")
  have b: "raw_bounded e" and bs: "list_all raw_bounded es'" using assms(1) es by simp_all
  have "wf_priv (pj1203aGetPrivateState st')" using run_inv [OF bs, of opts] by (simp add: r)
  from process_ok [OF this b, of opts] have "step_ok (pj1203aGetPrivateState st') r' p"
    by (simp add: p)
  then have "res_power_ab r' = expected_power_ab r' p" by (simp add: step_ok_def)
  then show ?thesis
    by (simp add: es run_snoc r p GetPrivateState_Some)
qed

lemma tenthE:
  assumes "tenth (Val a)"
  obtains k where "\<bar>k\<bar> \<le> 2 ^ 32" "a = fl64 (of_int k / 10)"
  using assms by (auto simp add: tenth_def)

lemma example_flush:
  "res_power_ab (fst (snd (pj1203aFlushAll empty_result B example_state no_options)))
     = Some (Val (fl64 (427 / 10)))"
proof -
  have v: "sign_x example_state B = Val (- 1)" "power_x example_state B = Val (js_div 371 10)"
    "current_x example_state B = Val (js_div 161 1000)" "power_factor_x example_state B = Val 98"
    by (simp_all add: example_state_def)
  have o: "\<not> pj1203aGetSignedPower no_options B"
    by (simp add: pj1203aGetSignedPower_def no_options_def)
  have n: "recomputed_power_ab (js_div 798 10) (js_mul (js_div 371 10) (- 1)) = fl64 (427 / 10)"
    by code_simp
  have p: "pub_power_x example_state = (\<lambda>_. Null)(A := Val (js_div 798 10))"
    by (simp add: example_state_def)
  show ?thesis
    unfolding FlushAll_complete_pub(2) [OF v] FlushAll_complete_pub(1) [OF v] p
    using o n by simp
qed

text \<open>
  C5. After any non-empty run of events with 4-byte raw values on a fresh device, the
  last record holds \<open>power_ab\<close> exactly when it publishes a power and both channels have a
  last emitted signed power. That \<open>power_ab\<close> is the value of \<open>Math.round(10*a + 10*b) / 10\<close>
  on the two last emitted signed powers \<open>a\<close> and \<open>b\<close>, which are the binary64 numbers of
  \<open>ka / 10\<close> and \<open>kb / 10\<close>, and it is the binary64 number of \<open>(ka + kb) / 10\<close>: the sum at
  the resolution 0.1, with no residual error. With 79.8 published for channel A, the flush
  of 37.1 produced on channel B emits the binary64 number of 42.7, which the direct sum of
  the two binary64 numbers is not.
\<close>

theorem recomputation_consistency:
  assumes "list_all raw_bounded es" "es \<noteq> []"
  shows "((res_power_ab (last (fst (run opts None es))) \<noteq> None) =
            ((res_power (last (fst (run opts None es))) A \<noteq> None
                \<or> res_power (last (fst (run opts None es))) B \<noteq> None)
             \<and> last_signed A (fst (run opts None es)) \<noteq> None
             \<and> last_signed B (fst (run opts None es)) \<noteq> None))
       \<and> (\<forall>w. res_power_ab (last (fst (run opts None es))) = Some w \<longrightarrow>
             (\<exists>ka kb. last_signed A (fst (run opts None es)) = Some (fl64 (of_int ka / 10))
                    \<and> last_signed B (fst (run opts None es)) = Some (fl64 (of_int kb / 10))
                    \<and> w = Val (recomputed_power_ab (fl64 (of_int ka / 10)) (fl64 (of_int kb / 10)))
                    \<and> w = Val (fl64 (of_int (ka + kb) / 10))))
       \<and> res_power_ab (fst (snd (pj1203aFlushAll empty_result B example_state no_options)))
            = Some (Val (fl64 (427 / 10)))
       \<and> js_add (fl64 (798 / 10)) (fl64 (- 371 / 10)) \<noteq> fl64 (427 / 10)"
proof -
  define rs where "rs = fst (run opts None es)"
  define p where "p = pj1203aGetPrivateState (snd (run opts None es))"
  have wf: "wf_priv p"
    and pub: "\<And>x. pub_power_x p x = (case last_signed x rs of None \<Rightarrow> Null | Some a \<Rightarrow> Val a)"
    using run_inv [OF assms(1), of opts] by (simp_all add: p_def rs_def)
  have ab: "res_power_ab (last rs) = expected_power_ab (last rs) p"
    using run_last [OF assms, of opts] by (simp add: p_def rs_def)
  have c1: "(res_power_ab (last rs) \<noteq> None) =
            ((res_power (last rs) A \<noteq> None \<or> res_power (last rs) B \<noteq> None)
             \<and> last_signed A rs \<noteq> None \<and> last_signed B rs \<noteq> None)"
    unfolding ab expected_power_ab_def pub
    by (cases "last_signed A rs"; cases "last_signed B rs") simp_all
  have c2: "\<exists>ka kb. last_signed A rs = Some (fl64 (of_int ka / 10))
                    \<and> last_signed B rs = Some (fl64 (of_int kb / 10))
                    \<and> w = Val (recomputed_power_ab (fl64 (of_int ka / 10)) (fl64 (of_int kb / 10)))
                    \<and> w = Val (fl64 (of_int (ka + kb) / 10))"
    if w: "res_power_ab (last rs) = Some w" for w
  proof -
    from w obtain a b where l: "last_signed A rs = Some a" "last_signed B rs = Some b"
      and wv: "w = Val (recomputed_power_ab a b)"
      unfolding ab expected_power_ab_def pub
      by (cases "last_signed A rs"; cases "last_signed B rs") (auto split: if_splits)
    have "tenth (pub_power_x p A)" "tenth (pub_power_x p B)"
      using wf by (simp_all add: wf_priv_def)
    then have "tenth (Val a)" "tenth (Val b)" unfolding pub l by simp_all
    then obtain ka kb where k: "\<bar>ka\<bar> \<le> 2 ^ 32" "a = fl64 (of_int ka / 10)"
      "\<bar>kb\<bar> \<le> 2 ^ 32" "b = fl64 (of_int kb / 10)"
      by (elim tenthE) blast
    have "recomputed_power_ab a b = fl64 (of_int (ka + kb) / 10)"
      unfolding recomputed_power_ab_def k(2,4) by (rule tenths_sum [OF k(1,3)])
    then show ?thesis using l wv k(2,4) by blast
  qed
  have c3: "js_add (fl64 (798 / 10)) (fl64 (- 371 / 10)) \<noteq> fl64 (427 / 10)"
    by code_simp
  show ?thesis
    using c1 c2 c3 example_flush unfolding rs_def by blast
qed

lemmas eval_defs = pj1203aFzDatapoints_convert_def track_seq_def gap_detected_def expected_seq_def
  clear_pending_def tuyaDatapoints_def power_from_def current_from_def power_factor_from_def
  energy_flow_from_def power_ab_from_def pj1203aFlushZero_def pj1203aFlushNull_def pj1203aFlushAll_def
  pj1203aRecomputePowerAb_def pj1203aGetPrivateState_def pj1203aGetSingleZeroRemove_def
  pj1203aGetSignedPower_def pj1203aGetLateEnergyFlow_def no_options_def empty_result_def
  object_assign_def js_bitand_FFFF

lemma example_numbers:
  "recomputed_power_ab (fl64 (798 / 10)) (fl64 (- 371 / 10)) = fl64 (427 / 10)"
  "recomputed_power_ab 7 (js_mul 0 1) = 7"
  by code_simp+

lemma example_run:
  "run no_options None example_events =
     ([\<lparr>res_power = [A \<mapsto> Val (js_div 798 10)],
          res_energy_flow = [A \<mapsto> Val ''consuming''],
          res_timestamp = [A \<mapsto> Val ''t1''],
          res_current = [A \<mapsto> Val (js_div 347 1000)],
          res_power_factor = [A \<mapsto> Val 99], res_power_ab = None,
          res_named = \<lambda>_. None\<rparr>,
       \<lparr>res_power = [B \<mapsto> Val (js_div 371 10)],
          res_energy_flow = [B \<mapsto> Val ''producing''],
          res_timestamp = [B \<mapsto> Val ''t2''],
          res_current = [B \<mapsto> Val (js_div 161 1000)],
          res_power_factor = [B \<mapsto> Val 98],
          res_power_ab =
            Some (Val (js_div
                   (Math_round
                     (js_add (js_mul 10 (js_mul (js_div 798 10) 1))
                        (js_mul 10 (js_mul (js_div 371 10) (- 1)))))
                   10)),
          res_named = \<lambda>_. None\<rparr>],
      Some \<lparr>sign_x = (\<lambda>_. Null)(A := Null, B := Null),
          power_x = (\<lambda>_. Null)(A := Null, B := Null),
          current_x = (\<lambda>_. Null)(A := Null, B := Null),
          power_factor_x = (\<lambda>_. Null)(A := Null, B := Null),
          timestamp_x = (\<lambda>_. Null)(A := Val ''t1'', B := Val ''t2''),
          last_seq = 31585, seq_inc = 256,
          pub_power_x = (\<lambda>_. Null)(A := Val (js_mul (js_div 798 10) 1),
                                   B := Val (js_mul (js_div 371 10) (- 1))),
          zero_power_x = (\<lambda>_. Null)(A := Val False, B := Val False),
          zero_current_x = (\<lambda>_. Null)(A := Val False, B := Val False)\<rparr>)"
proof -
  let ?p = "\<lparr>sign_x = (\<lambda>_. Null)(A := Null), power_x = (\<lambda>_. Null)(A := Null),
          current_x = (\<lambda>_. Null)(A := Null),
          power_factor_x = (\<lambda>_. Null)(A := Null),
          timestamp_x = (\<lambda>_. Null)(A := Val ''t1''), last_seq = 31329,
          seq_inc = 256,
          pub_power_x = (\<lambda>_. Null)(A := Val (js_mul (js_div 798 10) 1)),
          zero_power_x = (\<lambda>_. Null)(A := Val False),
          zero_current_x = (\<lambda>_. Null)(A := Val False)\<rparr>"
  have a: "process no_options None
             (Datapoints \<lparr>data_seq = 31329,
                data_dpValues = [(102, 0), (113, 347), (101, 798), (110, 99)]\<rparr> ''t1'') =
           (\<lparr>res_power = [A \<mapsto> Val (js_div 798 10)],
               res_energy_flow = [A \<mapsto> Val ''consuming''],
               res_timestamp = [A \<mapsto> Val ''t1''],
               res_current = [A \<mapsto> Val (js_div 347 1000)],
               res_power_factor = [A \<mapsto> Val 99], res_power_ab = None,
               res_named = \<lambda>_. None\<rparr>, ?p)"
    by (simp add: eval_defs Let_def cong: let_weak_cong prod.case_cong_weak)
  have b: "process no_options (Some ?p)
             (Datapoints \<lparr>data_seq = 31585,
                data_dpValues = [(104, 1), (114, 161), (105, 371), (121, 98)]\<rparr> ''t2'') =
           (\<lparr>res_power = [B \<mapsto> Val (js_div 371 10)],
               res_energy_flow = [B \<mapsto> Val ''producing''],
               res_timestamp = [B \<mapsto> Val ''t2''],
               res_current = [B \<mapsto> Val (js_div 161 1000)],
               res_power_factor = [B \<mapsto> Val 98],
               res_power_ab =
                 Some (Val (js_div
                        (Math_round
                          (js_add (js_mul 10 (js_mul (js_div 798 10) 1))
                             (js_mul 10 (js_mul (js_div 371 10) (- 1)))))
                        10)),
               res_named = \<lambda>_. None\<rparr>,
            \<lparr>sign_x = (\<lambda>_. Null)(A := Null, B := Null),
               power_x = (\<lambda>_. Null)(A := Null, B := Null),
               current_x = (\<lambda>_. Null)(A := Null, B := Null),
               power_factor_x = (\<lambda>_. Null)(A := Null, B := Null),
               timestamp_x = (\<lambda>_. Null)(A := Val ''t1'', B := Val ''t2''),
               last_seq = 31585, seq_inc = 256,
               pub_power_x = (\<lambda>_. Null)(A := Val (js_mul (js_div 798 10) 1),
                                        B := Val (js_mul (js_div 371 10) (- 1))),
               zero_power_x = (\<lambda>_. Null)(A := Val False, B := Val False),
               zero_current_x = (\<lambda>_. Null)(A := Val False, B := Val False)\<rparr>)"
    by (simp add: eval_defs Let_def cong: let_weak_cong prod.case_cong_weak)
  show ?thesis
    by (simp only: example_events_def run.simps a b prod.case)
qed

theorem recomputation_consistency_witness:
  "list_all raw_bounded example_events \<and> example_events \<noteq> []
   \<and> last_signed A (fst (run no_options None example_events)) = Some (fl64 (798 / 10))
   \<and> last_signed B (fst (run no_options None example_events)) = Some (fl64 (- 371 / 10))
   \<and> res_power (last (fst (run no_options None example_events))) B \<noteq> None
   \<and> res_power_ab (last (fst (run no_options None example_events))) = Some (Val (fl64 (427 / 10)))"
proof -
  let ?rs = "fst (run no_options None example_events)"
  have h: "list_all raw_bounded example_events" "example_events \<noteq> []"
    by (simp_all add: example_events_def)
  have la: "last_signed A ?rs = Some (fl64 (798 / 10))"
    unfolding example_run fst_conv
    by (simp add: signed_power_of_def js_div_def)
  have lb: "last_signed B ?rs = Some (fl64 (- 371 / 10))"
    unfolding example_run fst_conv
    by (simp add: signed_power_of_def js_div_def fl64_minus)
  have pb: "res_power (last ?rs) B \<noteq> None"
    unfolding example_run fst_conv by simp
  note t = recomputation_consistency [OF h, of no_options]
  from t pb la lb have "res_power_ab (last ?rs) \<noteq> None"
    by simp
  then obtain w where w: "res_power_ab (last ?rs) = Some w"
    by blast
  with t obtain ka kb where k: "last_signed A ?rs = Some (fl64 (of_int ka / 10))"
    "last_signed B ?rs = Some (fl64 (of_int kb / 10))"
    "w = Val (recomputed_power_ab (fl64 (of_int ka / 10)) (fl64 (of_int kb / 10)))"
    by blast
  from k(1) la have ea: "fl64 (of_int ka / 10) = fl64 (798 / 10)" by simp
  from k(2) lb have eb: "fl64 (of_int kb / 10) = fl64 (- 371 / 10)" by simp
  have "w = Val (fl64 (427 / 10))"
    unfolding k(3) ea eb example_numbers ..
  with w h la lb pb show ?thesis by simp
qed

section \<open>The total sent by the device\<close>

text \<open>
  C8 as stated fails in \<open>PJ-1203A.js\<close>: its table maps the datapoint 115 to \<open>power_ab\<close>
  through \<open>divideBy10\<close>, so the total of the device is published as it is received.
\<close>

theorem device_total_published_counterexample:
  "rv_named (fst (PJ1203A_fz_datapoints_convert \<lparr>data_seq = 0, data_dpValues = [(115, 427)]\<rparr>
       no_options_v1 None)) ''power_ab'' = Some (js_div 427 10)"
  by (simp add: PJ1203A_fz_datapoints_convert_def tuyaDatapoints_v1_def divideBy10_def
      object_assign_v1_def empty_result_v1_def Let_def)

text \<open>
  C8, amended. In the v5 converter the entry of the datapoint 115 returns an empty record
  and the state as it was, a message that carries only that datapoint emits nothing, and
  the \<open>power_ab\<close> of the record of any message is the recomputed one: present exactly when
  the record publishes a power and both channels have a last published signed power, and
  then computed from these two.
\<close>

theorem device_total_discarded:
  "power_ab_from v st opts = (empty_result, pj1203aGetPrivateState st)
   \<and> fst (pj1203aFzDatapoints_convert \<lparr>data_seq = s, data_dpValues = [(115, v)]\<rparr> now opts st)
       = empty_result
   \<and> res_power_ab (fst (pj1203aFzDatapoints_convert m now opts st))
       = expected_power_ab (fst (pj1203aFzDatapoints_convert m now opts st))
           (snd (pj1203aFzDatapoints_convert m now opts st))"
proof -
  have a: "power_ab_from v st opts = (empty_result, pj1203aGetPrivateState st)"
    by (simp add: power_ab_from_def)
  have b: "fst (pj1203aFzDatapoints_convert \<lparr>data_seq = s, data_dpValues = [(115, v)]\<rparr> now opts st)
       = empty_result"
    by (simp add: pj1203aFzDatapoints_convert_def tuyaDatapoints_def power_ab_from_def Let_def
        object_assign_empty)
  have c: "res_power_ab (fst (pj1203aFzDatapoints_convert m now opts st))
       = expected_power_ab (fst (pj1203aFzDatapoints_convert m now opts st))
           (snd (pj1203aFzDatapoints_convert m now opts st))"
    using convert_ab [of st m now opts] by (simp add: step_ab_def)
  show ?thesis using a b c by blast
qed

theorem device_total_discarded_witness:
  "pub_power_x buffered_state A = Val 7 \<and> pub_power_x buffered_state B = Val (- 3)
   \<and> fst (pj1203aFzDatapoints_convert \<lparr>data_seq = 1256, data_dpValues = [(115, 427)]\<rparr> ''t''
            no_options (Some buffered_state)) = empty_result
   \<and> res_power (fst (pj1203aFzDatapoints_convert total_msg ''t'' no_options (Some buffered_state))) B
       = Some (Val 0)
   \<and> pub_power_x (snd (pj1203aFzDatapoints_convert total_msg ''t'' no_options (Some buffered_state))) B
       = Val (js_mul 0 1)
   \<and> res_power_ab (fst (pj1203aFzDatapoints_convert total_msg ''t'' no_options (Some buffered_state)))
       = Some (Val 7)"
proof -
  let ?c = "pj1203aFzDatapoints_convert total_msg ''t'' no_options (Some buffered_state)"
  have e: "?c =
     (\<lparr>res_power = [B \<mapsto> Val 0], res_energy_flow = [B \<mapsto> Val ''consuming''],
         res_timestamp = [B \<mapsto> Val ''t''], res_current = [B \<mapsto> Val 0],
         res_power_factor = [B \<mapsto> Val 100],
         res_power_ab =
           Some (Val (js_div (Math_round (js_add (js_mul 10 7) (js_mul 10 (js_mul 0 1)))) 10)),
         res_named = \<lambda>_. None\<rparr>,
      \<lparr>sign_x = (\<lambda>_. Null)(A := Val 1, B := Null),
         power_x = (\<lambda>_. Null)(A := Val 15, B := Null),
         current_x = (\<lambda>_. Null)(A := Val 1, B := Null),
         power_factor_x = (\<lambda>_. Null)(A := Val 95, B := Null),
         timestamp_x = (\<lambda>_. Null)(B := Val ''t''), last_seq = 1256, seq_inc = 256,
         pub_power_x = (\<lambda>_. Null)(A := Val 7, B := Val (js_mul 0 1)),
         zero_power_x = (\<lambda>_. Null)(B := Val True), zero_current_x = \<lambda>_. Null\<rparr>)"
    by (simp add: total_msg_def buffered_state_def eval_defs Let_def
        cong: let_weak_cong prod.case_cong_weak)
  have p: "res_power (fst ?c) B = Some (Val 0)" "pub_power_x (snd ?c) A = Val 7"
    "pub_power_x (snd ?c) B = Val (js_mul 0 1)"
    unfolding e by simp_all
  have s: "pub_power_x buffered_state A = Val 7 \<and> pub_power_x buffered_state B = Val (- 3)"
    by (simp add: buffered_state_def)
  note t = device_total_discarded [of 427 "Some buffered_state" no_options 1256 "''t''" total_msg]
  from t have "res_power_ab (fst ?c) = expected_power_ab (fst ?c) (snd ?c)"
    by blast
  also have "\<dots> = Some (Val (recomputed_power_ab 7 (js_mul 0 1)))"
    by (simp add: expected_power_ab_def p)
  finally have ab: "res_power_ab (fst ?c) = Some (Val 7)"
    by (simp only: example_numbers)
  from t have d: "fst (pj1203aFzDatapoints_convert \<lparr>data_seq = 1256, data_dpValues = [(115, 427)]\<rparr>
            ''t'' no_options (Some buffered_state)) = empty_result"
    by blast
  show ?thesis using s d p ab by simp
qed

end
